theory Spec2Isabelle
  imports Main "HOL-Library.Word" "HOL-Library.Sublist"
begin

section \<open>The ledger: contracts/CertificateRegistry.sol\<close>

text \<open>
  The contract's storage is two mappings and the admin address. A Solidity mapping is
  total: a key that was never written reads as the zero value of the struct, so the
  mappings are total functions and the constructor starts them at the zero value.
  A text is the list of its characters.
\<close>

type_synonym address = "160 word"
type_synonym uint256 = "256 word"

record Certificate =
  studentName :: string
  course :: string
  grade :: string
  issueDate :: uint256
  isRevoked :: bool
  exists :: bool

record CertificateRegistry =
  certificates :: "string \<Rightarrow> Certificate"
  authorizedInstitutions :: "address \<Rightarrow> bool"
  admin :: address

datatype event = CertificateIssued string string | CertificateRevoked string

text \<open>The five \<open>require\<close> failures of the contract; \<open>reason\<close> is the revert string.\<close>

datatype revert =
  Only_admin | Not_authorized | Already_exists | Certificate_does_not_exist | Already_revoked

fun reason :: "revert \<Rightarrow> string" where
  "reason Only_admin = ''Only admin''"
| "reason Not_authorized = ''Not authorized''"
| "reason Already_exists = ''Already exists''"
| "reason Certificate_does_not_exist = ''Certificate does not exist''"
| "reason Already_revoked = ''Already revoked''"

text \<open>
  A state-changing function returns either the revert or the new storage with the events
  it emitted. A revert discards every storage change of the transaction.
\<close>

type_synonym outcome = "revert + CertificateRegistry \<times> event list"

definition zero_Certificate :: Certificate where
  "zero_Certificate =
     \<lparr>studentName = [], course = [], grade = [], issueDate = 0,
      isRevoked = False, exists = False\<rparr>"

definition constructor :: "address \<Rightarrow> CertificateRegistry" where
  "constructor msg_sender =
     \<lparr>certificates = (\<lambda>_. zero_Certificate),
      authorizedInstitutions = (\<lambda>_. False)(msg_sender := True),
      admin = msg_sender\<rparr>"

definition onlyAdmin :: "address \<Rightarrow> CertificateRegistry \<Rightarrow> outcome \<Rightarrow> outcome" where
  "onlyAdmin msg_sender s body = (if msg_sender = admin s then body else Inl Only_admin)"

definition onlyAuthorized :: "address \<Rightarrow> CertificateRegistry \<Rightarrow> outcome \<Rightarrow> outcome" where
  "onlyAuthorized msg_sender s body =
     (if authorizedInstitutions s msg_sender then body else Inl Not_authorized)"

definition addInstitution :: "address \<Rightarrow> address \<Rightarrow> CertificateRegistry \<Rightarrow> outcome" where
  "addInstitution msg_sender institution s =
     onlyAdmin msg_sender s
       (Inr (s\<lparr>authorizedInstitutions := (authorizedInstitutions s)(institution := True)\<rparr>, []))"

definition issueCertificate ::
  "address \<Rightarrow> uint256 \<Rightarrow> string \<Rightarrow> string \<Rightarrow> string \<Rightarrow> string \<Rightarrow> CertificateRegistry \<Rightarrow> outcome"
where
  "issueCertificate msg_sender block_timestamp certId sName crs grd s =
     onlyAuthorized msg_sender s
       (if exists (certificates s certId) then Inl Already_exists
        else Inr (s\<lparr>certificates := (certificates s)(certId :=
                     \<lparr>studentName = sName, course = crs, grade = grd,
                      issueDate = block_timestamp, isRevoked = False, exists = True\<rparr>)\<rparr>,
                  [CertificateIssued certId sName]))"

definition revokeCertificate :: "address \<Rightarrow> string \<Rightarrow> CertificateRegistry \<Rightarrow> outcome" where
  "revokeCertificate msg_sender certId s =
     onlyAuthorized msg_sender s
       (if \<not> exists (certificates s certId) then Inl Certificate_does_not_exist
        else if isRevoked (certificates s certId) then Inl Already_revoked
        else Inr (s\<lparr>certificates := (certificates s)(certId :=
                     (certificates s certId)\<lparr>isRevoked := True\<rparr>)\<rparr>,
                  [CertificateRevoked certId]))"

type_synonym verified = "string \<times> string \<times> string \<times> uint256 \<times> bool"

definition verifyCertificate :: "string \<Rightarrow> CertificateRegistry \<Rightarrow> revert + verified" where
  "verifyCertificate certId s =
     (if \<not> exists (certificates s certId) then Inl Certificate_does_not_exist
      else let cert = certificates s certId
           in Inr (studentName cert, course cert, grade cert, issueDate cert, isRevoked cert))"

subsection \<open>Transactions and reachable storage\<close>

text \<open>
  The chain runs the external calls one after the other. A transaction is a sender, the
  block's timestamp and one of the three state-changing functions; the storage after a
  reverted transaction is the storage before it.
\<close>

datatype call =
  AddInstitution address
| IssueCertificate string string string string
| RevokeCertificate string

fun execute :: "address \<Rightarrow> uint256 \<Rightarrow> call \<Rightarrow> CertificateRegistry \<Rightarrow> outcome" where
  "execute msg_sender ts (AddInstitution a) s = addInstitution msg_sender a s"
| "execute msg_sender ts (IssueCertificate certId sName crs grd) s =
     issueCertificate msg_sender ts certId sName crs grd s"
| "execute msg_sender ts (RevokeCertificate certId) s = revokeCertificate msg_sender certId s"

definition storage_after :: "outcome \<Rightarrow> CertificateRegistry \<Rightarrow> CertificateRegistry" where
  "storage_after r s = (case r of Inl _ \<Rightarrow> s | Inr (s', _) \<Rightarrow> s')"

definition transact :: "address \<times> uint256 \<times> call \<Rightarrow> CertificateRegistry \<Rightarrow> CertificateRegistry" where
  "transact t s = (case t of (msg_sender, ts, c) \<Rightarrow> storage_after (execute msg_sender ts c s) s)"

fun run :: "(address \<times> uint256 \<times> call) list \<Rightarrow> CertificateRegistry \<Rightarrow> CertificateRegistry" where
  "run [] s = s"
| "run (t # ts) s = run ts (transact t s)"

inductive reachable :: "CertificateRegistry \<Rightarrow> bool" where
  deployed: "reachable (constructor deployer)"
| mined: "reachable s \<Longrightarrow> reachable (transact t s)"

section \<open>The backend: backend/server.js\<close>

subsection \<open>Values of the JavaScript side\<close>

text \<open>
  An exception is an \<open>Error\<close> with its message. Multer's own errors are a subclass with a
  code, which the global error handler tells apart; no error raised here carries a
  \<open>status\<close> property.
\<close>

datatype js_error = Error string | MulterError string string

fun message :: "js_error \<Rightarrow> string" where
  "message (Error m) = m"
| "message (MulterError code m) = m"

text \<open>\<open>String.prototype.includes\<close>: the argument occurs as a contiguous part.\<close>

fun js_includes :: "string \<Rightarrow> string \<Rightarrow> bool" where
  "js_includes [] sub = (sub = [])"
| "js_includes (c # cs) sub = (prefix sub (c # cs) \<or> js_includes cs sub)"

text \<open>Decimal digits of a number, as a template literal prints \<open>Date.now()\<close>.\<close>

fun decimal :: "nat \<Rightarrow> string" where
  "decimal n =
     (if n < 10 then [''0123456789'' ! n]
      else decimal (n div 10) @ [''0123456789'' ! (n mod 10)])"

declare decimal.simps [simp del]

datatype json =
  JNull | JBool bool | JNum int | JStr string | JObj "(string \<times> json) list" | JArr "json list"

text \<open>
  What the client gets: \<open>res.status(n).json(v)\<close>, \<open>res.send(bytes)\<close> or
  \<open>res.sendFile(path)\<close> with the headers set before, or nothing when a handler's promise
  rejects outside its \<open>try\<close>.
\<close>

datatype response =
  Json nat json
| Send "(string \<times> string) list" string
| SendFile "(string \<times> string) list" string
| Unanswered

text \<open>JavaScript truthiness of a nullable text: \<open>null\<close>, \<open>undefined\<close> and \<open>''\<close> are falsy.\<close>

fun truthy :: "string option \<Rightarrow> bool" where
  "truthy None = False"
| "truthy (Some v) = (v \<noteq> [])"

fun nullable :: "string option \<Rightarrow> json" where
  "nullable None = JNull"
| "nullable (Some v) = JStr v"

subsection \<open>The stores\<close>

text \<open>
  A row of the table \<open>certificates\<close>. The column \<open>certId\<close> is \<open>UNIQUE NOT NULL\<close>, so the
  table is a map from certId to its row; \<open>id\<close> is \<open>AUTOINCREMENT\<close>.
\<close>

record Row =
  row_id :: nat
  row_certId :: string
  row_studentName :: string
  row_course :: string
  row_grade :: string
  row_issueDate :: string
  row_txHash :: "string option"
  row_documentPath :: "string option"
  row_documentOriginalName :: "string option"
  row_notes :: "string option"
  row_createdAt :: string

text \<open>
  The accesses to a store, in the order the program makes them. Only the calls that
  write are recorded: the two halves of a ledger write, and the writes to the uploads
  directory and to the table.
\<close>

datatype effect =
  LedgerSubmit string
| LedgerConfirmed string
| FileWrite string
| FileRename string string
| FileUnlink string
| RowInsert string
| RowDelete string

text \<open>
  The three stores the process works on: the deployed contract's storage, the table, and
  the directory \<open>uploads\<close> (file name to content). \<open>trace\<close> lists the effects so far.
\<close>

record Server =
  ledger :: CertificateRegistry
  rows :: "string \<rightharpoonup> Row"
  last_id :: nat
  uploads :: "string \<rightharpoonup> string"
  trace :: "effect list"

type_synonym certData = "string \<times> string \<times> string \<times> string \<times> uint256 \<times> string option"

text \<open>
  What a request meets outside the three stores: the process environment, the clock, the
  provider, and the libraries. A fault is the message of the error the collaborator
  throws, \<open>None\<close> when it works.
  \<^item> \<open>wallet\<close> is the account of \<open>PRIVATE_KEY\<close>; \<open>block_timestamp\<close> the timestamp of the
    block that mines the request's transaction; \<open>tx_hash\<close> its hash.
  \<^item> \<open>provider_fault\<close>: the JSON-RPC provider cannot be reached (or times out) when a call
    or a transaction is sent; \<open>receipt_fault\<close>: the same while \<open>tx.wait()\<close> waits.
  \<^item> \<open>call_exception\<close> is the message ethers gives the error of a reverted call.
  \<^item> \<open>upload_now\<close> and \<open>date_now\<close> are \<open>Date.now()\<close> in multer's \<open>filename\<close> callback and
    in the issue handler; \<open>toISOString\<close> is \<open>new Date().toISOString()\<close> and
    \<open>CURRENT_TIMESTAMP\<close> the default SQLite gives the column \<open>createdAt\<close>.
  \<^item> \<open>generateCertificatePDF\<close> (server.js, lines 199 to 552) lays out one page through
    pdf-lib and touches none of the three stores; it is taken with the libraries.
\<close>

record Env =
  wallet :: address
  block_timestamp :: uint256
  tx_hash :: string
  provider_fault :: "string option"
  receipt_fault :: "string option"
  call_exception :: "revert \<Rightarrow> string"
  db_fault :: "string option"
  upload_now :: nat
  date_now :: nat
  toISOString :: string
  CURRENT_TIMESTAMP :: string
  FRONTEND_URL :: string
  NODE_ENV :: "string option"
  QRCode_toDataURL :: "string \<Rightarrow> js_error + string"
  path_extname :: "string \<Rightarrow> string"
  toLowerCase :: "string \<Rightarrow> string"
  generateCertificatePDF :: "certData \<Rightarrow> string \<Rightarrow> js_error + string"
  PDFDocument_load :: "string \<Rightarrow> js_error + string"
  stamp_pages :: "string \<Rightarrow> string \<Rightarrow> string \<Rightarrow> js_error + string"
  jwt_verify :: "string \<Rightarrow> js_error + string"

subsection \<open>Sequencing with exceptions\<close>

type_synonym 'a io = "Server \<Rightarrow> (js_error + 'a) \<times> Server"

definition return_io :: "'a \<Rightarrow> 'a io" where
  "return_io x = (\<lambda>w. (Inr x, w))"

definition throw_io :: "js_error \<Rightarrow> 'a io" where
  "throw_io e = (\<lambda>w. (Inl e, w))"

definition bind_io :: "'a io \<Rightarrow> ('a \<Rightarrow> 'b io) \<Rightarrow> 'b io" where
  "bind_io m f = (\<lambda>w. case m w of (Inl e, w') \<Rightarrow> (Inl e, w') | (Inr x, w') \<Rightarrow> f x w')"

definition try_catch :: "'a io \<Rightarrow> (js_error \<Rightarrow> 'a io) \<Rightarrow> 'a io" where
  "try_catch m h = (\<lambda>w. case m w of (Inl e, w') \<Rightarrow> h e w' | (Inr x, w') \<Rightarrow> (Inr x, w'))"

definition record_effect :: "effect \<Rightarrow> unit io" where
  "record_effect e = (\<lambda>w. (Inr (), w\<lparr>trace := trace w @ [e]\<rparr>))"

text \<open>A handler whose promise rejects sends nothing.\<close>

definition answer :: "response io \<Rightarrow> Server \<Rightarrow> response \<times> Server" where
  "answer m w = (case m w of (Inl e, w') \<Rightarrow> (Unanswered, w') | (Inr r, w') \<Rightarrow> (r, w'))"

subsection \<open>The collaborators' calls\<close>

text \<open>
  \<open>contract.issueCertificate(...)\<close> sends the transaction: the provider first runs it
  against the current storage (gas estimation) and the call throws if that reverts or
  the provider is not reached; the storage is not changed yet. \<open>tx.wait()\<close> returns once
  the transaction is mined, which is when the storage changes, and throws if it reverted
  or the wait failed. A transaction that was sent is mined whether or not the wait for
  its receipt succeeds.
\<close>

definition contract_issueCertificate ::
  "Env \<Rightarrow> string \<Rightarrow> string \<Rightarrow> string \<Rightarrow> string \<Rightarrow> call io"
where
  "contract_issueCertificate env certId sName crs grd =
     bind_io (record_effect (LedgerSubmit certId)) (\<lambda>_ w.
       case provider_fault env of
         Some m \<Rightarrow> throw_io (Error m) w
       | None \<Rightarrow>
          (case issueCertificate (wallet env) (block_timestamp env) certId sName crs grd (ledger w) of
             Inl r \<Rightarrow> throw_io (Error (call_exception env r)) w
           | Inr _ \<Rightarrow> return_io (IssueCertificate certId sName crs grd) w))"

definition tx_wait :: "Env \<Rightarrow> string \<Rightarrow> call \<Rightarrow> unit io" where
  "tx_wait env certId tx = (\<lambda>w.
     let mined = execute (wallet env) (block_timestamp env) tx (ledger w);
         w' = w\<lparr>ledger := storage_after mined (ledger w)\<rparr>
     in case receipt_fault env of
          Some m \<Rightarrow> throw_io (Error m) w'
        | None \<Rightarrow>
           (case mined of
              Inl r \<Rightarrow> throw_io (Error (call_exception env r)) w'
            | Inr _ \<Rightarrow> record_effect (LedgerConfirmed certId) w'))"

definition contract_verifyCertificate :: "Env \<Rightarrow> string \<Rightarrow> verified io" where
  "contract_verifyCertificate env certId = (\<lambda>w.
     case provider_fault env of
       Some m \<Rightarrow> throw_io (Error m) w
     | None \<Rightarrow>
        (case verifyCertificate certId (ledger w) of
           Inl r \<Rightarrow> throw_io (Error (call_exception env r)) w
         | Inr v \<Rightarrow> return_io v w))"

text \<open>The prepared statements of better-sqlite3 on the table.\<close>

definition db_get :: "Env \<Rightarrow> string \<Rightarrow> Row option io" where
  "db_get env certId = (\<lambda>w.
     case db_fault env of
       Some m \<Rightarrow> throw_io (Error m) w
     | None \<Rightarrow> return_io (rows w certId) w)"

definition db_insert :: "Env \<Rightarrow> Row \<Rightarrow> unit io" where
  "db_insert env r =
     bind_io (record_effect (RowInsert (row_certId r))) (\<lambda>_ w.
       case db_fault env of
         Some m \<Rightarrow> throw_io (Error m) w
       | None \<Rightarrow>
          (if rows w (row_certId r) \<noteq> None
           then throw_io (Error ''UNIQUE constraint failed: certificates.certId'') w
           else return_io ()
                  (w\<lparr>rows := (rows w)(row_certId r \<mapsto>
                              r\<lparr>row_id := Suc (last_id w),
                                row_createdAt := CURRENT_TIMESTAMP env\<rparr>),
                     last_id := Suc (last_id w)\<rparr>)))"

definition db_delete :: "Env \<Rightarrow> string \<Rightarrow> unit io" where
  "db_delete env certId =
     bind_io (record_effect (RowDelete certId)) (\<lambda>_ w.
       case db_fault env of
         Some m \<Rightarrow> throw_io (Error m) w
       | None \<Rightarrow> return_io () (w\<lparr>rows := (rows w)(certId := None)\<rparr>))"

text \<open>The calls of \<open>fs\<close> on the directory \<open>uploads\<close>; a path is the file's name in it.\<close>

definition fs_existsSync :: "string \<Rightarrow> Server \<Rightarrow> bool" where
  "fs_existsSync name w = (uploads w name \<noteq> None)"

definition fs_renameSync :: "string \<Rightarrow> string \<Rightarrow> unit io" where
  "fs_renameSync old new =
     bind_io (record_effect (FileRename old new)) (\<lambda>_ w.
       case uploads w old of
         None \<Rightarrow> throw_io (Error ''ENOENT: no such file or directory, rename'') w
       | Some bytes \<Rightarrow> return_io () (w\<lparr>uploads := ((uploads w)(old := None))(new \<mapsto> bytes)\<rparr>))"

definition fs_unlinkSync :: "string \<Rightarrow> unit io" where
  "fs_unlinkSync name =
     bind_io (record_effect (FileUnlink name)) (\<lambda>_ w.
       case uploads w name of
         None \<Rightarrow> throw_io (Error ''ENOENT: no such file or directory, unlink'') w
       | Some _ \<Rightarrow> return_io () (w\<lparr>uploads := (uploads w)(name := None)\<rparr>))"

definition fs_readFileSync :: "string \<Rightarrow> string io" where
  "fs_readFileSync name = (\<lambda>w.
     case uploads w name of
       None \<Rightarrow> throw_io (Error ''ENOENT: no such file or directory, open'') w
     | Some bytes \<Rightarrow> return_io bytes w)"

definition lift :: "js_error + 'a \<Rightarrow> 'a io" where
  "lift r = (case r of Inl e \<Rightarrow> throw_io e | Inr x \<Rightarrow> return_io x)"

definition verifyUrl :: "Env \<Rightarrow> string \<Rightarrow> string" where
  "verifyUrl env certId = FRONTEND_URL env @ ''/verify/'' @ certId"

definition generateQRCode :: "Env \<Rightarrow> string \<Rightarrow> string io" where
  "generateQRCode env certId = lift (QRCode_toDataURL env (verifyUrl env certId))"

subsection \<open>Middleware\<close>

text \<open>
  \<open>upload.single('document')\<close>: the file filter throws on a content type outside the
  list, the size limit gives a \<open>MulterError\<close>, and an accepted file is written to
  \<open>uploads\<close> under a temporary name before the next middleware runs.
\<close>

record Part =
  originalname :: string
  mimetype :: string
  content :: string

record File = Part +
  path :: string

definition allowedTypes :: "string list" where
  "allowedTypes = [''application/pdf'', ''image/png'', ''image/jpeg'']"

definition fileSize :: nat where
  "fileSize = 10 * 1024 * 1024"

definition temp_name :: "Env \<Rightarrow> Part \<Rightarrow> string" where
  "temp_name env p = ''temp_'' @ decimal (upload_now env) @ path_extname env (originalname p)"

definition upload_single :: "Env \<Rightarrow> Part option \<Rightarrow> File option io" where
  "upload_single env part =
     (case part of
        None \<Rightarrow> return_io None
      | Some p \<Rightarrow>
         if mimetype p \<notin> set allowedTypes
         then throw_io (Error ''Only PDF, PNG, and JPEG files are allowed'')
         else if fileSize < length (content p)
         then throw_io (MulterError ''LIMIT_FILE_SIZE'' ''File too large'')
         else bind_io (record_effect (FileWrite (temp_name env p))) (\<lambda>_ w.
                return_io
                  (Some \<lparr>originalname = originalname p, mimetype = mimetype p,
                         content = content p, path = temp_name env p\<rparr>)
                  (w\<lparr>uploads := (uploads w)(temp_name env p \<mapsto> content p)\<rparr>)))"

text \<open>
  The validation chains of express-validator. \<open>trim()\<close> strips the white space of both
  ends (of the 8-bit characters: tab to carriage return, the space and the no-break
  space) and writes the result back to the body; a missing field counts as the empty
  text; \<open>isLength\<close> counts characters; every validator of a chain runs, so an empty
  field reports both messages.
\<close>

definition is_space :: "char \<Rightarrow> bool" where
  "is_space c = (c \<in> set [CHR 0x09, CHR 0x0A, CHR 0x0B, CHR 0x0C, CHR 0x0D, CHR '' '', CHR 0xA0])"

definition trim :: "string \<Rightarrow> string" where
  "trim s = rev (dropWhile is_space (rev (dropWhile is_space s)))"

record Body =
  body_studentName :: "string option"
  body_course :: "string option"
  body_grade :: "string option"

fun toString :: "string option \<Rightarrow> string" where
  "toString None = []"
| "toString (Some v) = v"

definition chain :: "string \<Rightarrow> string \<Rightarrow> nat \<Rightarrow> nat \<Rightarrow> string \<Rightarrow> string \<Rightarrow> (string \<times> string) list" where
  "chain field required lo hi bounds v =
     (if v = [] then [(field, required)] else [])
     @ (if lo \<le> length v \<and> length v \<le> hi then [] else [(field, bounds)])"

definition validationResult :: "string \<times> string \<times> string \<Rightarrow> (string \<times> string) list" where
  "validationResult b = (case b of (sName, crs, grd) \<Rightarrow>
     chain ''studentName'' ''Student name is required'' 2 100
           ''Student name must be 2-100 characters'' sName
     @ chain ''course'' ''Course is required'' 2 100 ''Course must be 2-100 characters'' crs
     @ chain ''grade'' ''Grade is required'' 1 50 ''Grade must be 1-50 characters'' grd)"

definition sanitized :: "Body \<Rightarrow> string \<times> string \<times> string" where
  "sanitized b =
     (trim (toString (body_studentName b)), trim (toString (body_course b)),
      trim (toString (body_grade b)))"

definition validation_failed :: "(string \<times> string) list \<Rightarrow> response" where
  "validation_failed errors =
     Json 400 (JObj [(''error'', JStr ''Validation failed''),
                     (''details'', JArr (map (\<lambda>(field, msg).
                        JObj [(''field'', JStr field), (''message'', JStr msg)]) errors))])"

definition errorHandler :: "Env \<Rightarrow> js_error \<Rightarrow> response" where
  "errorHandler env err =
     (case err of
        MulterError code m \<Rightarrow>
          if code = ''LIMIT_FILE_SIZE''
          then Json 400 (JObj [(''error'', JStr ''File too large. Maximum size is 10MB.'')])
          else Json 400 (JObj [(''error'', JStr (''Upload error: '' @ m))])
      | Error m \<Rightarrow>
          Json 500 (JObj ([(''error'', JStr ''Internal server error'')]
                          @ (if NODE_ENV env = Some ''development''
                             then [(''message'', JStr m)] else []))))"

text \<open>
  \<open>authenticateToken\<close>: the token is the second piece of the header split at spaces.
\<close>

fun split :: "char \<Rightarrow> string \<Rightarrow> string list" where
  "split sep [] = [[]]"
| "split sep (c # cs) =
     (if c = sep then [] # split sep cs
      else case split sep cs of [] \<Rightarrow> [[c]] | piece # pieces \<Rightarrow> (c # piece) # pieces)"

definition bearer :: "string option \<Rightarrow> string option" where
  "bearer authHeader =
     (case authHeader of
        None \<Rightarrow> None
      | Some h \<Rightarrow> if h = [] then Some []
                  else (case split CHR '' '' h of _ # token # _ \<Rightarrow> Some token | _ \<Rightarrow> None))"

definition authenticateToken ::
  "Env \<Rightarrow> string option \<Rightarrow> (Server \<Rightarrow> response \<times> Server) \<Rightarrow> Server \<Rightarrow> response \<times> Server"
where
  "authenticateToken env authHeader next w =
     (if \<not> truthy (bearer authHeader)
      then (Json 401 (JObj [(''error'', JStr ''Access token required'')]), w)
      else case jwt_verify env (toString (bearer authHeader)) of
             Inl err \<Rightarrow> (Json 403 (JObj [(''error'', JStr ''Invalid or expired token'')]), w)
           | Inr user \<Rightarrow> next w)"

subsection \<open>POST /api/certificates/issue\<close>

definition or_null :: "string option \<Rightarrow> string option" where
  "or_null v = (if truthy v then v else None)"

definition new_certId :: "Env \<Rightarrow> string" where
  "new_certId env = ''CERT'' @ decimal (date_now env)"

definition persist_document :: "Env \<Rightarrow> string \<Rightarrow> File option \<Rightarrow> string option io" where
  "persist_document env certId file =
     (case file of
        None \<Rightarrow> return_io None
      | Some f \<Rightarrow>
          let ext = path_extname env (originalname f);
              newFilename = certId @ ext
          in bind_io (fs_renameSync (path f) newFilename) (\<lambda>_. return_io (Some newFilename)))"

definition discard_upload :: "File option \<Rightarrow> unit io" where
  "discard_upload file =
     (case file of
        None \<Rightarrow> return_io ()
      | Some f \<Rightarrow> (\<lambda>w. if fs_existsSync (path f) w then fs_unlinkSync (path f) w
                       else return_io () w))"

text \<open>
  The handler's \<open>try\<close> block after \<open>await tx.wait()\<close>: the document is renamed, the QR
  code is made, the row is inserted and the response is sent.
\<close>

definition mirror_certificate ::
  "Env \<Rightarrow> string \<Rightarrow> string \<times> string \<times> string \<Rightarrow> File option \<Rightarrow> response io"
where
  "mirror_certificate env certId body file = (case body of (sName, crs, grd) \<Rightarrow>
     bind_io (persist_document env certId file) (\<lambda>documentPath.
     bind_io (generateQRCode env certId) (\<lambda>qrCode.
     bind_io (db_insert env
               \<lparr>row_id = 0, row_certId = certId, row_studentName = sName,
                row_course = crs, row_grade = grd, row_issueDate = toISOString env,
                row_txHash = Some (tx_hash env), row_documentPath = documentPath,
                row_documentOriginalName =
                  (case file of None \<Rightarrow> None | Some f \<Rightarrow> or_null (Some (originalname f))),
                row_notes = None, row_createdAt = []\<rparr>) (\<lambda>_.
     return_io (Json 200 (JObj
       [(''success'', JBool True), (''certId'', JStr certId),
        (''txHash'', JStr (tx_hash env)), (''hasDocument'', JBool (truthy documentPath)),
        (''qrCode'', JStr qrCode), (''verifyUrl'', JStr (verifyUrl env certId)),
        (''message'', JStr ''Certificate issued successfully'')]))))))"

text \<open>The handler's \<open>catch\<close> block; \<open>next(error)\<close> reaches the global error handler.\<close>

definition issue_failed :: "Env \<Rightarrow> File option \<Rightarrow> js_error \<Rightarrow> response io" where
  "issue_failed env file error =
     bind_io (discard_upload file) (\<lambda>_. return_io (errorHandler env error))"

definition issue_handler ::
  "Env \<Rightarrow> string \<times> string \<times> string \<Rightarrow> File option \<Rightarrow> Server \<Rightarrow> response \<times> Server"
where
  "issue_handler env body file = (case body of (sName, crs, grd) \<Rightarrow>
     let certId = new_certId env in
     answer (try_catch
       (bind_io (contract_issueCertificate env certId sName crs grd) (\<lambda>tx.
        bind_io (tx_wait env certId tx) (\<lambda>_.
        mirror_certificate env certId body file)))
       (issue_failed env file)))"

text \<open>
  The route: multer, the validation chains with \<open>handleValidationErrors\<close>, the handler.
  An error of multer goes to the global error handler.
\<close>

definition issue_route :: "Env \<Rightarrow> Body \<Rightarrow> Part option \<Rightarrow> Server \<Rightarrow> response \<times> Server" where
  "issue_route env body part w =
     (case upload_single env part w of
        (Inl err, w1) \<Rightarrow> (errorHandler env err, w1)
      | (Inr file, w1) \<Rightarrow>
          let errors = validationResult (sanitized body)
          in if errors \<noteq> [] then (validation_failed errors, w1)
             else issue_handler env (sanitized body) file w1)"

subsection \<open>GET /api/certificates/verify/:certId\<close>

definition not_exist :: string where
  "not_exist = ''Certificate does not exist''"

definition error_json :: "nat \<Rightarrow> string \<Rightarrow> response" where
  "error_json status text = Json status (JObj [(''error'', JStr text)])"

definition documentPath_of :: "Row option \<Rightarrow> string option" where
  "documentPath_of dbCert = (case dbCert of None \<Rightarrow> None | Some r \<Rightarrow> row_documentPath r)"

definition txHash_of :: "Row option \<Rightarrow> string option" where
  "txHash_of dbCert = (case dbCert of None \<Rightarrow> None | Some r \<Rightarrow> row_txHash r)"

definition verify_route :: "Env \<Rightarrow> string \<Rightarrow> Server \<Rightarrow> response \<times> Server" where
  "verify_route env certId =
     answer (try_catch
       (bind_io (contract_verifyCertificate env certId) (\<lambda>result.
        bind_io (db_get env certId) (\<lambda>dbCert.
        bind_io (generateQRCode env certId) (\<lambda>qrCode.
        case result of (sName, crs, grd, date, revoked) \<Rightarrow>
          return_io (Json 200 (JObj
            [(''exists'', JBool True), (''studentName'', JStr sName), (''course'', JStr crs),
             (''grade'', JStr grd), (''issueDate'', JNum (uint date)),
             (''isRevoked'', JBool revoked),
             (''hasDocument'', JBool (truthy (documentPath_of dbCert))),
             (''txHash'', nullable (or_null (txHash_of dbCert))),
             (''qrCode'', JStr qrCode), (''verifyUrl'', JStr (verifyUrl env certId))]))))))
       (\<lambda>error.
          if js_includes (message error) not_exist
          then return_io (Json 200 (JObj [(''exists'', JBool False)]))
          else return_io (error_json 500 (message error))))"

subsection \<open>GET /api/certificates/:certId/pdf and /api/certificates/download/:certId\<close>

definition attachment :: "string \<Rightarrow> string \<times> string" where
  "attachment filename =
     (''Content-Disposition'', ''attachment; filename='' @ [CHR 0x22] @ filename @ [CHR 0x22])"

definition revoked_error :: response where
  "revoked_error = error_json 400 ''Certificate has been revoked''"

text \<open>
  Both routes read the contract first and stop at a revoked record. The PDF renderer
  gets the issue date as the contract returned it (the source wraps it in a \<open>Date\<close>).
\<close>

definition pdf_route :: "Env \<Rightarrow> string \<Rightarrow> Server \<Rightarrow> response \<times> Server" where
  "pdf_route env certId =
     answer (try_catch
       (bind_io (contract_verifyCertificate env certId) (\<lambda>result.
        case result of (sName, crs, grd, date, revoked) \<Rightarrow>
          if revoked then return_io revoked_error
          else
            bind_io (db_get env certId) (\<lambda>dbCert.
            bind_io (generateQRCode env certId) (\<lambda>qrCode.
            bind_io (lift (generateCertificatePDF env
                       (certId, sName, crs, grd, date, txHash_of dbCert) qrCode)) (\<lambda>pdfBytes.
            return_io (Send [(''Content-Type'', ''application/pdf''),
                             attachment (certId @ ''_certificate.pdf'')] pdfBytes))))))
       (\<lambda>error.
          if js_includes (message error) not_exist
          then return_io (error_json 404 ''Certificate not found'')
          else return_io (error_json 500 (message error))))"

definition download_route :: "Env \<Rightarrow> string \<Rightarrow> Server \<Rightarrow> response \<times> Server" where
  "download_route env certId =
     answer (try_catch
       (bind_io (contract_verifyCertificate env certId) (\<lambda>result.
        case result of (sName, crs, grd, date, revoked) \<Rightarrow>
          if revoked then return_io revoked_error
          else
            bind_io (db_get env certId) (\<lambda>dbCert.
            if \<not> truthy (documentPath_of dbCert)
            then return_io (error_json 404 ''No document found for this certificate'')
            else (\<lambda>w.
              let filePath = toString (documentPath_of dbCert) in
              if \<not> fs_existsSync filePath w
              then return_io (error_json 404 ''Document file not found'') w
              else
                let ext = toLowerCase env (path_extname env filePath) in
                if ext = ''.pdf''
                then
                  bind_io (fs_readFileSync filePath) (\<lambda>pdfBytes.
                  bind_io (lift (PDFDocument_load env pdfBytes)) (\<lambda>pdfDoc.
                  bind_io (generateQRCode env certId) (\<lambda>qrDataUrl.
                  bind_io (lift (stamp_pages env pdfDoc certId qrDataUrl)) (\<lambda>stampedPdfBytes.
                  return_io (Send [(''Content-Type'', ''application/pdf''),
                                   attachment (''stamped_'' @ certId @ ''.pdf'')]
                               stampedPdfBytes))))) w
                else return_io (SendFile [attachment (certId @ ext)] filePath) w))))
       (\<lambda>error.
          if js_includes (message error) not_exist
          then return_io (error_json 404 ''Certificate not found on blockchain'')
          else return_io (error_json 500 (message error))))"

subsection \<open>DELETE /api/admin/certificates/:certId\<close>

definition deleted_json :: response where
  "deleted_json =
     Json 200 (JObj
       [(''success'', JBool True),
        (''message'',
         JStr ''Certificate deleted from database. Note: Blockchain record is permanent.'')])"

definition delete_handler :: "Env \<Rightarrow> string \<Rightarrow> Server \<Rightarrow> response \<times> Server" where
  "delete_handler env certId =
     answer (try_catch
       (bind_io (db_get env certId) (\<lambda>dbCert.
        case dbCert of
          None \<Rightarrow> return_io (error_json 404 ''Certificate not found'')
        | Some r \<Rightarrow>
            bind_io (if truthy (row_documentPath r)
                     then (\<lambda>w. let filePath = toString (row_documentPath r) in
                               if fs_existsSync filePath w then fs_unlinkSync filePath w
                               else return_io () w)
                     else return_io ()) (\<lambda>_.
            bind_io (db_delete env certId) (\<lambda>_.
            return_io deleted_json))))
       (\<lambda>error. return_io (error_json 500 (message error))))"

definition delete_route :: "Env \<Rightarrow> string option \<Rightarrow> string \<Rightarrow> Server \<Rightarrow> response \<times> Server" where
  "delete_route env authHeader certId =
     authenticateToken env authHeader (delete_handler env certId)"

subsection \<open>Vocabulary of the claims\<close>

text \<open>
  The ledger write of an issuance fails when the provider is not reached (when the
  transaction is sent or while its receipt is awaited), when the contract rejects the
  wallet, or when the certId is already taken.
\<close>

definition ledger_write_fails :: "Env \<Rightarrow> string \<Rightarrow> Server \<Rightarrow> bool" where
  "ledger_write_fails env certId w =
     (provider_fault env \<noteq> None \<or> receipt_fault env \<noteq> None
      \<or> \<not> authorizedInstitutions (ledger w) (wallet env)
      \<or> exists (certificates (ledger w) certId))"

text \<open>Multer lets the request through: there is no file, or one of an allowed type and size.\<close>

definition accepted :: "Part option \<Rightarrow> bool" where
  "accepted part =
     (case part of
        None \<Rightarrow> True
      | Some p \<Rightarrow> mimetype p \<in> set allowedTypes \<and> length (content p) \<le> fileSize)"

text \<open>
  The writes to the local mirror of a certId are the rename of its document to the
  certId-derived name and the insert of its row. \<open>mirror_after_ledger certId ok es\<close>
  reads the effects \<open>es\<close> from the left and holds when each such write comes after the
  confirmation of the ledger write of that certId (\<open>ok\<close>: already confirmed).
\<close>

fun mirror_after_ledger :: "string \<Rightarrow> bool \<Rightarrow> effect list \<Rightarrow> bool" where
  "mirror_after_ledger certId ok [] = True"
| "mirror_after_ledger certId ok (LedgerConfirmed c # es) =
     mirror_after_ledger certId (ok \<or> c = certId) es"
| "mirror_after_ledger certId ok (FileRename old new # es) =
     (ok \<and> mirror_after_ledger certId ok es)"
| "mirror_after_ledger certId ok (RowInsert c # es) =
     (ok \<and> mirror_after_ledger certId ok es)"
| "mirror_after_ledger certId ok (e # es) = mirror_after_ledger certId ok es"

definition is_mirror_write :: "effect \<Rightarrow> bool" where
  "is_mirror_write e = (case e of FileRename old new \<Rightarrow> True | RowInsert c \<Rightarrow> True | _ \<Rightarrow> False)"

text \<open>
  What multer hands on for an accepted request, and the server after it: the file under
  its temporary name.
\<close>

definition stored :: "Env \<Rightarrow> Part option \<Rightarrow> File option" where
  "stored env part =
     (case part of
        None \<Rightarrow> None
      | Some p \<Rightarrow> Some \<lparr>originalname = originalname p, mimetype = mimetype p,
                        content = content p, path = temp_name env p\<rparr>)"

definition after_upload :: "Env \<Rightarrow> Part option \<Rightarrow> Server \<Rightarrow> Server" where
  "after_upload env part w =
     (case part of
        None \<Rightarrow> w
      | Some p \<Rightarrow> w\<lparr>uploads := (uploads w)(temp_name env p \<mapsto> content p),
                     trace := trace w @ [FileWrite (temp_name env p)]\<rparr>)"

text \<open>The contract's storage once \<open>issueCertificate\<close> was mined for the wallet.\<close>

definition issued_ledger ::
  "Env \<Rightarrow> string \<Rightarrow> string \<times> string \<times> string \<Rightarrow> CertificateRegistry \<Rightarrow> CertificateRegistry"
where
  "issued_ledger env certId body s = (case body of (sName, crs, grd) \<Rightarrow>
     s\<lparr>certificates := (certificates s)(certId :=
         \<lparr>studentName = sName, course = crs, grade = grd,
          issueDate = block_timestamp env, isRevoked = False, exists = True\<rparr>)\<rparr>)"

text \<open>
  A step is local when it leaves the contract's storage alone and only adds to the trace.
\<close>

definition local_step :: "(Server \<Rightarrow> 'r \<times> Server) \<Rightarrow> bool" where
  "local_step m = (\<forall>w. ledger (snd (m w)) = ledger w \<and> prefix (trace w) (trace (snd (m w))))"

text \<open>The answer "not found" of the verify route, and the answers that carry an artifact.\<close>

definition not_found :: response where
  "not_found = Json 200 (JObj [(''exists'', JBool False)])"

definition is_artifact :: "response \<Rightarrow> bool" where
  "is_artifact r = (case r of Send headers bytes \<Rightarrow> True | SendFile headers name \<Rightarrow> True | _ \<Rightarrow> False)"

text \<open>The request carries a token that \<open>jwt.verify\<close> accepts.\<close>

definition authenticated :: "Env \<Rightarrow> string option \<Rightarrow> bool" where
  "authenticated env authHeader =
     (truthy (bearer authHeader)
      \<and> (case jwt_verify env (toString (bearer authHeader)) of Inl err \<Rightarrow> False | Inr user \<Rightarrow> True))"

section \<open>Example states\<close>

definition registrar :: address where
  "registrar = 1"

definition outsider :: address where
  "outsider = 2"

definition ada_issued :: CertificateRegistry where
  "ada_issued =
     transact (registrar, 1700000000,
               IssueCertificate ''CERT1'' ''Ada Lovelace'' ''Computer Science'' ''A'')
       (constructor registrar)"

definition ada_revoked :: CertificateRegistry where
  "ada_revoked = transact (registrar, 1700000600, RevokeCertificate ''CERT1'') ada_issued"

text \<open>
  An environment in which every collaborator works, and its variants with one fault. The
  wallet is the deployer's account.
\<close>

definition example_env :: Env where
  "example_env =
     \<lparr>wallet = registrar, block_timestamp = 1700000000, tx_hash = ''0x5e1f'',
      provider_fault = None, receipt_fault = None,
      call_exception = (\<lambda>r. ''execution reverted: '' @ reason r),
      db_fault = None, upload_now = 1700000000099, date_now = 1700000000123,
      toISOString = ''2023-11-14T22:13:20.123Z'', CURRENT_TIMESTAMP = ''2023-11-14 22:13:20'',
      FRONTEND_URL = ''http://localhost:3000'', NODE_ENV = None,
      QRCode_toDataURL = (\<lambda>url. Inr (''data:image/png;base64,'' @ url)),
      path_extname = dropWhile (\<lambda>c. c \<noteq> CHR ''.''),
      toLowerCase = (\<lambda>s. s),
      generateCertificatePDF = (\<lambda>certData qrCode. Inr ''%PDF-1.7 certificate''),
      PDFDocument_load = Inr,
      stamp_pages = (\<lambda>pdfDoc certId qrCode. Inr (pdfDoc @ '' VERIFIED: '' @ certId)),
      jwt_verify = (\<lambda>token. if token = ''s3cr3t'' then Inr ''admin''
                               else Inl (Error ''jwt malformed''))\<rparr>"

definition unreachable_env :: Env where
  "unreachable_env = example_env\<lparr>provider_fault := Some ''connect ECONNREFUSED 127.0.0.1:8545''\<rparr>"

definition ada_row :: Row where
  "ada_row =
     \<lparr>row_id = 1, row_certId = ''CERT1'', row_studentName = ''Ada Lovelace'',
      row_course = ''Computer Science'', row_grade = ''A'',
      row_issueDate = ''2023-11-14T22:13:20.000Z'', row_txHash = Some ''0x11aa'',
      row_documentPath = Some ''CERT1.pdf'', row_documentOriginalName = Some ''transcript.pdf'',
      row_notes = None, row_createdAt = ''2023-11-14 22:13:20''\<rparr>"

definition fresh_server :: Server where
  "fresh_server =
     \<lparr>ledger = constructor registrar, rows = Map.empty, last_id = 0, uploads = Map.empty,
      trace = []\<rparr>"

definition issued_server :: Server where
  "issued_server =
     \<lparr>ledger = ada_issued, rows = [''CERT1'' \<mapsto> ada_row], last_id = 1,
      uploads = [''CERT1.pdf'' \<mapsto> ''%PDF-1.7 transcript''], trace = []\<rparr>"

definition revoked_server :: Server where
  "revoked_server = issued_server\<lparr>ledger := ada_revoked\<rparr>"

definition ada_body :: Body where
  "ada_body =
     \<lparr>body_studentName = Some '' Ada Lovelace '', body_course = Some ''Computer Science'',
      body_grade = Some ''A''\<rparr>"

definition short_body :: Body where
  "short_body = ada_body\<lparr>body_studentName := Some '' A ''\<rparr>"

definition scan :: Part where
  "scan = \<lparr>originalname = ''transcript.png'', mimetype = ''image/png'', content = ''PNG bytes''\<rparr>"

section \<open>Properties of the ledger\<close>

lemma revoked_exists_step:
  assumes "isRevoked (certificates s certId) \<longrightarrow> exists (certificates s certId)"
  shows "isRevoked (certificates (transact t s) certId) \<longrightarrow> exists (certificates (transact t s) certId)"
proof -
  obtain a ts c where t: "t = (a, ts, c)" by (cases t)
  show ?thesis using assms unfolding t
    by (cases c)
       (auto simp: transact_def storage_after_def addInstitution_def issueCertificate_def
          revokeCertificate_def onlyAdmin_def onlyAuthorized_def)
qed

lemma reachable_revoked_exists:
  "reachable s \<Longrightarrow> isRevoked (certificates s certId) \<longrightarrow> exists (certificates s certId)"
proof (induction rule: reachable.induct)
  case (deployed deployer)
  show ?case by (simp add: constructor_def zero_Certificate_def)
next
  case (mined s t)
  from mined.IH show ?case by (rule revoked_exists_step)
qed

lemma reachable_run: "reachable s \<Longrightarrow> reachable (run txs s)"
  by (induction txs arbitrary: s) (auto intro: reachable.mined)

lemma transact_keeps_revoked:
  assumes "isRevoked (certificates s certId)" and "exists (certificates s certId)"
  shows "isRevoked (certificates (transact t s) certId)"
proof -
  obtain a ts c where t: "t = (a, ts, c)" by (cases t)
  show ?thesis using assms unfolding t
    by (cases c)
       (auto simp: transact_def storage_after_def addInstitution_def issueCertificate_def
          revokeCertificate_def onlyAdmin_def onlyAuthorized_def)
qed

lemma run_keeps_revoked:
  "reachable s \<Longrightarrow> isRevoked (certificates s certId) \<Longrightarrow> isRevoked (certificates (run txs s) certId)"
proof (induction txs arbitrary: s)
  case Nil
  then show ?case by simp
next
  case (Cons t txs)
  have "exists (certificates s certId)"
    using Cons.prems reachable_revoked_exists by blast
  then have "isRevoked (certificates (transact t s) certId)"
    using Cons.prems(2) by (intro transact_keeps_revoked)
  moreover have "reachable (transact t s)"
    using Cons.prems(1) by (rule reachable.mined)
  ultimately show ?case using Cons.IH by simp
qed

lemmas ledger_defs =
  issueCertificate_def revokeCertificate_def verifyCertificate_def addInstitution_def
  onlyAdmin_def onlyAuthorized_def transact_def storage_after_def Let_def

text \<open>
  Records are never deleted and authorizations never withdrawn: no function of the
  contract does either.
\<close>

lemma transact_keeps_record:
  assumes "exists (certificates s certId)"
  shows "exists (certificates (transact t s) certId)"
proof -
  obtain a ts c where t: "t = (a, ts, c)" by (cases t)
  show ?thesis using assms unfolding t
    by (cases c) (auto simp: ledger_defs)
qed

lemma transact_keeps_authorized:
  assumes "authorizedInstitutions s a"
  shows "authorizedInstitutions (transact t s) a"
proof -
  obtain b ts c where t: "t = (b, ts, c)" by (cases t)
  show ?thesis using assms unfolding t
    by (cases c) (auto simp: ledger_defs)
qed

lemma run_keeps_record:
  "exists (certificates s certId) \<Longrightarrow> exists (certificates (run txs s) certId)"
  by (induction txs arbitrary: s) (simp_all add: transact_keeps_record)

lemma run_keeps_authorized:
  "authorizedInstitutions s a \<Longrightarrow> authorizedInstitutions (run txs s) a"
  by (induction txs arbitrary: s) (simp_all add: transact_keeps_authorized)

lemma reachable_ada_issued: "reachable ada_issued"
  unfolding ada_issued_def by (intro reachable.intros)

lemma reachable_ada_revoked: "reachable ada_revoked"
  unfolding ada_revoked_def by (intro reachable.mined reachable_ada_issued)

section \<open>Properties of the backend\<close>

lemmas io_defs = return_io_def throw_io_def bind_io_def try_catch_def record_effect_def answer_def lift_def

subsection \<open>Local steps\<close>

lemma local_stepD:
  "local_step m \<Longrightarrow> ledger (snd (m w)) = ledger w \<and> (\<exists>es. trace (snd (m w)) = trace w @ es)"
  by (auto simp: local_step_def prefix_def)

lemma local_return: "local_step (return_io x)"
  by (simp add: local_step_def return_io_def)

lemma local_throw: "local_step (throw_io e)"
  by (simp add: local_step_def throw_io_def)

lemma local_effect: "local_step (record_effect e)"
  by (simp add: local_step_def record_effect_def)

lemma local_lift: "local_step (lift r)"
  by (cases r) (simp_all add: lift_def local_return local_throw)

lemma local_bind:
  assumes "local_step m" and "\<And>x. local_step (f x)"
  shows "local_step (bind_io m f)"
proof -
  have "ledger (snd (bind_io m f w)) = ledger w \<and> prefix (trace w) (trace (snd (bind_io m f w)))" for w
  proof (cases "m w")
    case (Pair r w1)
    have m: "ledger w1 = ledger w" "prefix (trace w) (trace w1)"
      using assms(1) Pair by (auto simp: local_step_def dest: spec [where x = w])
    show ?thesis
    proof (cases r)
      case (Inl e)
      then show ?thesis using Pair m by (simp add: bind_io_def)
    next
      case (Inr x)
      have "ledger (snd (f x w1)) = ledger w1" "prefix (trace w1) (trace (snd (f x w1)))"
        using assms(2) [of x] by (auto simp: local_step_def)
      then show ?thesis using Pair Inr m by (auto simp: bind_io_def intro: prefix_order.trans)
    qed
  qed
  then show ?thesis by (simp add: local_step_def)
qed

lemma local_try_catch:
  assumes "local_step m" and "\<And>e. local_step (h e)"
  shows "local_step (try_catch m h)"
proof -
  have "ledger (snd (try_catch m h w)) = ledger w \<and> prefix (trace w) (trace (snd (try_catch m h w)))" for w
  proof (cases "m w")
    case (Pair r w1)
    have m: "ledger w1 = ledger w" "prefix (trace w) (trace w1)"
      using assms(1) Pair by (auto simp: local_step_def dest: spec [where x = w])
    show ?thesis
    proof (cases r)
      case (Inr x)
      then show ?thesis using Pair m by (simp add: try_catch_def)
    next
      case (Inl e)
      have "ledger (snd (h e w1)) = ledger w1" "prefix (trace w1) (trace (snd (h e w1)))"
        using assms(2) [of e] by (auto simp: local_step_def)
      then show ?thesis using Pair Inl m by (auto simp: try_catch_def intro: prefix_order.trans)
    qed
  qed
  then show ?thesis by (simp add: local_step_def)
qed

lemma local_answer:
  assumes "local_step m"
  shows "local_step (answer m)"
proof -
  have "ledger (snd (answer m w)) = ledger w \<and> prefix (trace w) (trace (snd (answer m w)))" for w
  proof -
    have "ledger (snd (m w)) = ledger w \<and> prefix (trace w) (trace (snd (m w)))"
      using assms by (simp add: local_step_def)
    then show ?thesis
      by (cases "m w") (auto simp: answer_def split: sum.splits)
  qed
  then show ?thesis by (simp add: local_step_def)
qed

lemma local_if:
  "local_step m \<Longrightarrow> local_step n \<Longrightarrow> local_step (\<lambda>w. if P w then m w else n w)"
  by (simp add: local_step_def)

lemma local_db_get: "local_step (db_get env certId)"
  by (cases "db_fault env") (simp_all add: db_get_def local_step_def throw_io_def return_io_def)

lemma local_after_effect:
  assumes "\<And>w. ledger (snd (k w)) = ledger w \<and> trace (snd (k w)) = trace w"
  shows "local_step (bind_io (record_effect e) (\<lambda>_. k))"
  using assms by (simp add: local_step_def bind_io_def record_effect_def)

lemma local_db_insert: "local_step (db_insert env r)"
  unfolding db_insert_def
  by (rule local_after_effect) (simp add: throw_io_def return_io_def split: option.splits)

lemma local_db_delete: "local_step (db_delete env certId)"
  unfolding db_delete_def
  by (rule local_after_effect) (simp add: throw_io_def return_io_def split: option.splits)

lemma local_renameSync: "local_step (fs_renameSync old new)"
  unfolding fs_renameSync_def
  by (rule local_after_effect) (simp add: throw_io_def return_io_def split: option.splits)

lemma local_unlinkSync: "local_step (fs_unlinkSync name)"
  unfolding fs_unlinkSync_def
  by (rule local_after_effect) (simp add: throw_io_def return_io_def split: option.splits)

lemma local_generateQRCode: "local_step (generateQRCode env certId)"
  by (simp add: generateQRCode_def local_lift)

lemma local_persist_document: "local_step (persist_document env certId file)"
  by (cases "file")
     (auto simp: persist_document_def Let_def intro!: local_return local_bind local_renameSync)

lemma local_discard_upload: "local_step (discard_upload file)"
  by (cases "file")
     (auto simp: discard_upload_def intro!: local_return local_if local_unlinkSync)

lemma local_mirror_certificate: "local_step (mirror_certificate env certId body file)"
  by (cases body)
     (auto simp: mirror_certificate_def
           intro!: local_bind local_persist_document local_generateQRCode local_db_insert
                   local_return)

lemma local_issue_failed: "local_step (issue_failed env file error)"
  by (auto simp: issue_failed_def intro!: local_bind local_discard_upload local_return)


subsection \<open>The ledger write of an issuance\<close>

lemma ledger_write_failure:
  assumes "ledger_write_fails env certId w"
  shows "\<exists>m w'. bind_io (contract_issueCertificate env certId sName crs grd)
                   (\<lambda>tx. bind_io (tx_wait env certId tx) K) w = (Inl (Error m), w')
          \<and> rows w' = rows w \<and> last_id w' = last_id w \<and> uploads w' = uploads w
          \<and> trace w' = trace w @ [LedgerSubmit certId]"
proof (cases "provider_fault env")
  case (Some m)
  then show ?thesis
    by (simp add: contract_issueCertificate_def bind_io_def record_effect_def throw_io_def)
next
  case None
  show ?thesis
  proof (cases "issueCertificate (wallet env) (block_timestamp env) certId sName crs grd (ledger w)")
    case (Inl r)
    then show ?thesis using None
      by (simp add: contract_issueCertificate_def bind_io_def record_effect_def throw_io_def)
  next
    case (Inr ok)
    then have good: "authorizedInstitutions (ledger w) (wallet env)"
      "\<not> exists (certificates (ledger w) certId)"
      by (auto simp: issueCertificate_def onlyAuthorized_def split: if_splits)
    with assms None obtain m where m: "receipt_fault env = Some m"
      by (auto simp: ledger_write_fails_def)
    show ?thesis using None Inr m
      by (simp add: contract_issueCertificate_def tx_wait_def bind_io_def record_effect_def
            throw_io_def return_io_def Let_def)
  qed
qed

lemma ledger_write_success:
  assumes "\<not> ledger_write_fails env certId w"
  shows "bind_io (contract_issueCertificate env certId sName crs grd)
                   (\<lambda>tx. bind_io (tx_wait env certId tx) K) w
         = K () (w\<lparr>ledger := issued_ledger env certId (sName, crs, grd) (ledger w),
                   trace := trace w @ [LedgerSubmit certId, LedgerConfirmed certId]\<rparr>)"
proof -
  from assms have ok: "provider_fault env = None" "receipt_fault env = None"
     "authorizedInstitutions (ledger w) (wallet env)" "\<not> exists (certificates (ledger w) certId)"
    by (auto simp: ledger_write_fails_def)
  have i: "issueCertificate (wallet env) (block_timestamp env) certId sName crs grd (ledger w)
      = Inr (issued_ledger env certId (sName, crs, grd) (ledger w), [CertificateIssued certId sName])"
    using ok by (simp add: issueCertificate_def onlyAuthorized_def issued_ledger_def)
  show ?thesis using ok i
      by (simp add: contract_issueCertificate_def tx_wait_def bind_io_def record_effect_def
            throw_io_def return_io_def Let_def storage_after_def)
qed

lemma discard_upload_result:
  "\<exists>w'. discard_upload file w = (Inr (), w') \<and> ledger w' = ledger w \<and> rows w' = rows w
        \<and> last_id w' = last_id w
        \<and> uploads w' = (case file of None \<Rightarrow> uploads w | Some f \<Rightarrow> (uploads w)(path f := None))
        \<and> trace w' = trace w @ (case file of None \<Rightarrow> []
                                 | Some f \<Rightarrow> if uploads w (path f) = None then []
                                             else [FileUnlink (path f)])"
proof (cases "file")
  case None
  then show ?thesis by (simp add: discard_upload_def return_io_def)
next
  case (Some f)
  show ?thesis
  proof (cases "uploads w (path f)")
    case None
    then show ?thesis using Some
      by (auto simp: discard_upload_def return_io_def fs_existsSync_def)
  next
    case (Some bytes)
    then show ?thesis using \<open>file = Some f\<close>
      by (simp add: discard_upload_def return_io_def fs_existsSync_def fs_unlinkSync_def
            bind_io_def record_effect_def)
  qed
qed

lemma issue_handler_failure:
  assumes "ledger_write_fails env (new_certId env) w"
  shows "\<exists>m w'. issue_handler env body file w = (errorHandler env (Error m), w')
          \<and> rows w' = rows w \<and> last_id w' = last_id w
          \<and> uploads w' = (case file of None \<Rightarrow> uploads w | Some f \<Rightarrow> (uploads w)(path f := None))
          \<and> trace w' = trace w @ [LedgerSubmit (new_certId env)]
               @ (case file of None \<Rightarrow> []
                  | Some f \<Rightarrow> if uploads w (path f) = None then [] else [FileUnlink (path f)])"
proof -
  obtain sName crs grd where b: "body = (sName, crs, grd)" by (cases body)
  from ledger_write_failure [OF assms, of sName crs grd "\<lambda>_. mirror_certificate env (new_certId env) body file"]
  obtain m w1 where 1: "bind_io (contract_issueCertificate env (new_certId env) sName crs grd)
        (\<lambda>tx. bind_io (tx_wait env (new_certId env) tx) (\<lambda>_. mirror_certificate env (new_certId env) body file)) w
        = (Inl (Error m), w1)"
    and w1: "rows w1 = rows w" "last_id w1 = last_id w" "uploads w1 = uploads w"
       "trace w1 = trace w @ [LedgerSubmit (new_certId env)]"
    by blast
  from discard_upload_result [of "file" w1]
  obtain w2 where 2: "discard_upload file w1 = (Inr (), w2)" and w2: "rows w2 = rows w1"
      "last_id w2 = last_id w1"
      "uploads w2 = (case file of None \<Rightarrow> uploads w1 | Some f \<Rightarrow> (uploads w1)(path f := None))"
      "trace w2 = trace w1 @ (case file of None \<Rightarrow> []
                                 | Some f \<Rightarrow> if uploads w1 (path f) = None then []
                                             else [FileUnlink (path f)])"
    by blast
  have "issue_handler env body file w = (errorHandler env (Error m), w2)"
    using 1 2 by (simp add: issue_handler_def b Let_def answer_def try_catch_def issue_failed_def
        bind_io_def return_io_def)
  then show ?thesis using w1 w2 by (auto split: option.splits)
qed

lemma issue_handler_success:
  assumes "\<not> ledger_write_fails env (new_certId env) w"
  shows "\<exists>es. trace (snd (issue_handler env body file w))
                 = trace w @ [LedgerSubmit (new_certId env), LedgerConfirmed (new_certId env)] @ es
          \<and> ledger (snd (issue_handler env body file w))
                 = issued_ledger env (new_certId env) body (ledger w)"
proof -
  obtain sName crs grd where b: "body = (sName, crs, grd)" by (cases body)
  let ?c = "new_certId env"
  let ?w1 = "w\<lparr>ledger := issued_ledger env ?c body (ledger w),
                 trace := trace w @ [LedgerSubmit ?c, LedgerConfirmed ?c]\<rparr>"
  let ?rest = "answer (try_catch (mirror_certificate env ?c body file) (issue_failed env file))"
  have "issue_handler env body file w = ?rest ?w1"
    using ledger_write_success [OF assms, of sName crs grd "\<lambda>_. mirror_certificate env ?c body file"]
    by (simp add: issue_handler_def b Let_def answer_def try_catch_def)
  moreover have "local_step ?rest"
    by (intro local_answer local_try_catch local_mirror_certificate local_issue_failed)
  ultimately show ?thesis
    using local_stepD [of ?rest ?w1] by auto
qed


subsection \<open>The issue route, case by case\<close>

lemma temp_is_not_certId: "new_certId env @ ext \<noteq> temp_name env p"
  by (simp add: temp_name_def new_certId_def)

lemma upload_accepted:
  "accepted part \<Longrightarrow> upload_single env part w = (Inr (stored env part), after_upload env part w)"
  by (cases part)
     (simp_all add: accepted_def upload_single_def stored_def after_upload_def return_io_def
        bind_io_def record_effect_def)

lemma upload_rejected: "\<not> accepted part \<Longrightarrow> \<exists>e. upload_single env part w = (Inl e, w)"
  by (cases part) (auto simp: accepted_def upload_single_def throw_io_def)

lemma issue_route_rejected:
  "\<not> accepted part \<Longrightarrow> \<exists>e. issue_route env body part w = (errorHandler env e, w)"
  using upload_rejected [of part env w] by (auto simp: issue_route_def)

lemma issue_route_invalid:
  "accepted part \<Longrightarrow> validationResult (sanitized body) \<noteq> [] \<Longrightarrow>
   issue_route env body part w
     = (validation_failed (validationResult (sanitized body)), after_upload env part w)"
  by (simp add: issue_route_def upload_accepted)

lemma issue_route_valid:
  "accepted part \<Longrightarrow> validationResult (sanitized body) = [] \<Longrightarrow>
   issue_route env body part w
     = issue_handler env (sanitized body) (stored env part) (after_upload env part w)"
  by (simp add: issue_route_def upload_accepted)

lemma after_upload_stores:
  "ledger (after_upload env part w) = ledger w"
  "rows (after_upload env part w) = rows w"
  "last_id (after_upload env part w) = last_id w"
  "trace (after_upload env part w)
     = trace w @ (case part of None \<Rightarrow> [] | Some p \<Rightarrow> [FileWrite (temp_name env p)])"
  by (cases part; simp add: after_upload_def)+

lemma ledger_write_fails_after_upload:
  "ledger_write_fails env certId (after_upload env part w) = ledger_write_fails env certId w"
  by (simp add: ledger_write_fails_def after_upload_stores)

lemma chain_passes:
  "chain field required lo hi bounds v = [] \<longleftrightarrow> v \<noteq> [] \<and> lo \<le> length v \<and> length v \<le> hi"
  by (simp add: chain_def)

lemma validation_passes_iff:
  "validationResult (sanitized body) = [] \<longleftrightarrow>
     2 \<le> length (trim (toString (body_studentName body)))
     \<and> length (trim (toString (body_studentName body))) \<le> 100
     \<and> 2 \<le> length (trim (toString (body_course body)))
     \<and> length (trim (toString (body_course body))) \<le> 100
     \<and> 1 \<le> length (trim (toString (body_grade body)))
     \<and> length (trim (toString (body_grade body))) \<le> 50"
  by (auto simp: validationResult_def sanitized_def chain_passes)

text \<open>
  A request that multer lets through and the validation rejects: the answer is 400 with
  the list of messages, and the server differs from before only by the file of the
  upload; the contract is not called and the table is not touched.
\<close>

lemma invalid_request_writes_only_upload:
  assumes "accepted part"
      and "\<not> (2 \<le> length (trim (toString (body_studentName body)))
              \<and> length (trim (toString (body_studentName body))) \<le> 100
              \<and> 2 \<le> length (trim (toString (body_course body)))
              \<and> length (trim (toString (body_course body))) \<le> 100
              \<and> 1 \<le> length (trim (toString (body_grade body)))
              \<and> length (trim (toString (body_grade body))) \<le> 50)"
  shows "issue_route env body part w
           = (validation_failed (validationResult (sanitized body)), after_upload env part w)"
    and "validationResult (sanitized body) \<noteq> []"
    and "ledger (after_upload env part w) = ledger w"
    and "rows (after_upload env part w) = rows w"
    and "uploads (after_upload env part w)
           = (case part of None \<Rightarrow> uploads w
              | Some p \<Rightarrow> (uploads w)(temp_name env p \<mapsto> content p))"
proof -
  show invalid: "validationResult (sanitized body) \<noteq> []"
    using assms(2) validation_passes_iff [of body] by blast
  show "issue_route env body part w
           = (validation_failed (validationResult (sanitized body)), after_upload env part w)"
    using assms(1) invalid by (rule issue_route_invalid)
  show "ledger (after_upload env part w) = ledger w" "rows (after_upload env part w) = rows w"
    by (simp_all add: after_upload_stores)
  show "uploads (after_upload env part w)
           = (case part of None \<Rightarrow> uploads w
              | Some p \<Rightarrow> (uploads w)(temp_name env p \<mapsto> content p))"
    by (cases part) (simp_all add: after_upload_def)
qed

lemma mirror_after_ledger_confirmed: "mirror_after_ledger certId True es"
proof (induction es)
  case Nil
  show ?case by simp
next
  case (Cons e es)
  then show ?case by (cases e) simp_all
qed

lemma issue_route_ledger_failure:
  assumes "accepted part" and "validationResult (sanitized body) = []"
      and "ledger_write_fails env (new_certId env) w"
  shows "\<exists>m w'. issue_route env body part w = (errorHandler env (Error m), w')
           \<and> rows w' = rows w \<and> last_id w' = last_id w
           \<and> uploads w' = (case part of None \<Rightarrow> uploads w
                            | Some p \<Rightarrow> (uploads w)(temp_name env p := None))
           \<and> (\<forall>ext. uploads w' (new_certId env @ ext) = uploads w (new_certId env @ ext))
           \<and> trace w' = trace w @
                (case part of None \<Rightarrow> [LedgerSubmit (new_certId env)]
                 | Some p \<Rightarrow> [FileWrite (temp_name env p), LedgerSubmit (new_certId env),
                              FileUnlink (temp_name env p)])"
proof -
  let ?w1 = "after_upload env part w"
  have fails: "ledger_write_fails env (new_certId env) ?w1"
    using assms(3) by (simp add: ledger_write_fails_after_upload)
  from issue_handler_failure [OF fails, of "sanitized body" "stored env part"]
  obtain m w' where h: "issue_handler env (sanitized body) (stored env part) ?w1
        = (errorHandler env (Error m), w')"
    and st: "rows w' = rows ?w1" "last_id w' = last_id ?w1"
      "uploads w' = (case stored env part of None \<Rightarrow> uploads ?w1
                     | Some f \<Rightarrow> (uploads ?w1)(path f := None))"
      "trace w' = trace ?w1 @ [LedgerSubmit (new_certId env)]
               @ (case stored env part of None \<Rightarrow> []
                  | Some f \<Rightarrow> if uploads ?w1 (path f) = None then [] else [FileUnlink (path f)])"
    by blast
  have route: "issue_route env body part w = (errorHandler env (Error m), w')"
    using assms(1,2) h by (simp add: issue_route_valid)
  have up: "uploads w' = (case part of None \<Rightarrow> uploads w
                            | Some p \<Rightarrow> (uploads w)(temp_name env p := None))"
    using st(3) by (cases part) (simp_all add: stored_def after_upload_def)
  have tr: "trace w' = trace w @
                (case part of None \<Rightarrow> [LedgerSubmit (new_certId env)]
                 | Some p \<Rightarrow> [FileWrite (temp_name env p), LedgerSubmit (new_certId env),
                              FileUnlink (temp_name env p)])"
    using st(4) by (cases part) (simp_all add: stored_def after_upload_def)
  have named: "uploads w' (new_certId env @ ext) = uploads w (new_certId env @ ext)" for ext
    using up temp_is_not_certId [of env ext] by (cases part) simp_all
  have "rows w' = rows w" "last_id w' = last_id w"
    using st(1,2) by (simp_all add: after_upload_stores)
  with route up tr named show ?thesis by blast
qed

subsection \<open>Reading the ledger\<close>

lemma contract_verify_unreachable:
  "provider_fault env = Some m \<Longrightarrow> contract_verifyCertificate env certId w = (Inl (Error m), w)"
  by (simp add: contract_verifyCertificate_def throw_io_def)

lemma contract_verify_reverted:
  "provider_fault env = None \<Longrightarrow> \<not> exists (certificates (ledger w) certId) \<Longrightarrow>
   contract_verifyCertificate env certId w
     = (Inl (Error (call_exception env Certificate_does_not_exist)), w)"
  by (simp add: contract_verifyCertificate_def verifyCertificate_def throw_io_def)

lemma contract_verify_returned:
  "provider_fault env = None \<Longrightarrow> exists (certificates (ledger w) certId) \<Longrightarrow>
   contract_verifyCertificate env certId w
     = (Inr (studentName (certificates (ledger w) certId), course (certificates (ledger w) certId),
             grade (certificates (ledger w) certId), issueDate (certificates (ledger w) certId),
             isRevoked (certificates (ledger w) certId)), w)"
  by (simp add: contract_verifyCertificate_def verifyCertificate_def return_io_def Let_def)

lemma contract_verify_same_ledger:
  "ledger w' = ledger w \<Longrightarrow>
   fst (contract_verifyCertificate env certId w') = fst (contract_verifyCertificate env certId w)"
  by (simp add: contract_verifyCertificate_def throw_io_def return_io_def
      split: option.splits sum.splits)

lemma local_contract_verify: "local_step (contract_verifyCertificate env certId)"
  by (simp add: local_step_def contract_verifyCertificate_def throw_io_def return_io_def
      split: option.splits sum.splits)

subsection \<open>The verify route\<close>

lemma verify_route_caught:
  assumes "contract_verifyCertificate env certId w = (Inl e, w)"
  shows "verify_route env certId w
          = (if js_includes (message e) not_exist then not_found
             else error_json 500 (message e), w)"
  using assms
  by (simp add: verify_route_def answer_def try_catch_def bind_io_def return_io_def not_found_def)

lemma verify_route_found:
  assumes "contract_verifyCertificate env certId w = (Inr v, w)"
      and "db_fault env = None \<or> (\<exists>m. db_fault env = Some m \<and> \<not> js_includes m not_exist)"
      and "\<forall>e. QRCode_toDataURL env (verifyUrl env certId) = Inl e \<longrightarrow> \<not> js_includes (message e) not_exist"
  shows "fst (verify_route env certId w) \<noteq> not_found \<and> snd (verify_route env certId w) = w"
proof -
  obtain sName crs grd date revoked where v: "v = (sName, crs, grd, date, revoked)"
    by (cases v)
  show ?thesis
  proof (cases "db_fault env")
    case (Some m)
    with assms(2) have "\<not> js_includes m not_exist" by auto
    then show ?thesis using assms(1) Some
      by (simp add: verify_route_def answer_def try_catch_def bind_io_def return_io_def
            db_get_def throw_io_def not_found_def error_json_def)
  next
    case None
    show ?thesis
    proof (cases "QRCode_toDataURL env (verifyUrl env certId)")
      case (Inl e)
      with assms(3) have "\<not> js_includes (message e) not_exist" by auto
      then show ?thesis using assms(1) None Inl
        by (simp add: verify_route_def answer_def try_catch_def bind_io_def return_io_def
              db_get_def throw_io_def not_found_def error_json_def generateQRCode_def lift_def)
    next
      case (Inr qr)
      then show ?thesis using assms(1) None v
        by (simp add: verify_route_def answer_def try_catch_def bind_io_def return_io_def
              db_get_def throw_io_def not_found_def generateQRCode_def lift_def)
    qed
  qed
qed

subsection \<open>The two download routes\<close>

lemma pdf_route_caught:
  assumes "contract_verifyCertificate env certId w = (Inl e, w)"
  shows "\<exists>status text. pdf_route env certId w = (error_json status text, w)"
  using assms
  by (auto simp: pdf_route_def answer_def try_catch_def bind_io_def return_io_def)

lemma download_route_caught:
  assumes "contract_verifyCertificate env certId w = (Inl e, w)"
  shows "\<exists>status text. download_route env certId w = (error_json status text, w)"
  using assms
  by (auto simp: download_route_def answer_def try_catch_def bind_io_def return_io_def)

lemma pdf_route_revoked:
  assumes "contract_verifyCertificate env certId w = (Inr (sName, crs, grd, date, True), w)"
  shows "pdf_route env certId w = (revoked_error, w)"
  using assms
  by (simp add: pdf_route_def answer_def try_catch_def bind_io_def return_io_def)

lemma download_route_revoked:
  assumes "contract_verifyCertificate env certId w = (Inr (sName, crs, grd, date, True), w)"
  shows "download_route env certId w = (revoked_error, w)"
  using assms
  by (simp add: download_route_def answer_def try_catch_def bind_io_def return_io_def)

lemma error_json_no_artifact: "\<not> is_artifact (error_json status text)"
  by (simp add: is_artifact_def error_json_def)

subsection \<open>The delete route\<close>

lemma local_delete_handler: "local_step (delete_handler env certId)"
  unfolding delete_handler_def
  by (intro local_answer local_try_catch local_bind local_db_get)
     (auto split: option.splits simp: Let_def
           intro!: local_return local_bind local_db_delete local_if local_unlinkSync)

lemma local_authenticateToken:
  "local_step next \<Longrightarrow> local_step (authenticateToken env authHeader next)"
  by (auto simp: local_step_def authenticateToken_def split: sum.splits)

lemma local_delete_route: "local_step (delete_route env authHeader certId)"
  by (simp add: delete_route_def local_authenticateToken local_delete_handler)

lemma delete_handler_deletes:
  assumes "rows w certId = Some r" and "db_fault env = None"
  shows "\<exists>w'. delete_handler env certId w = (deleted_json, w')
           \<and> rows w' = (rows w)(certId := None)
           \<and> uploads w' = (if truthy (row_documentPath r)
                            then (uploads w)(toString (row_documentPath r) := None)
                            else uploads w)"
proof (cases "truthy (row_documentPath r) \<and> uploads w (toString (row_documentPath r)) \<noteq> None")
  case True
  then show ?thesis using assms
    by (auto simp: delete_handler_def answer_def try_catch_def bind_io_def return_io_def
          db_get_def db_delete_def fs_existsSync_def fs_unlinkSync_def record_effect_def Let_def)
next
  case False
  then show ?thesis using assms
    by (auto simp: delete_handler_def answer_def try_catch_def bind_io_def return_io_def
          db_get_def db_delete_def fs_existsSync_def fs_unlinkSync_def record_effect_def Let_def)
qed

section \<open>Claims about the ledger\<close>

text \<open>
  C1. Whenever \<open>issueCertificate\<close> succeeds, \<open>verifyCertificate\<close> on the same certId in
  the resulting storage returns the student name, course and grade that were passed in,
  the block's timestamp as issue date, and \<open>isRevoked = false\<close>. The call does succeed
  for every authorized sender and every certId that does not exist yet, whatever the three
  texts are.
\<close>

theorem issue_then_verify:
  "(issueCertificate a ts certId sName crs grd s = Inr (s', ev) \<longrightarrow>
      verifyCertificate certId s' = Inr (sName, crs, grd, ts, False))
   \<and> (authorizedInstitutions s a \<and> \<not> exists (certificates s certId) \<longrightarrow>
        (\<exists>s' ev. issueCertificate a ts certId sName crs grd s = Inr (s', ev)))"
  by (auto simp: ledger_defs split: if_splits)

theorem issue_then_verify_witness:
  "verifyCertificate ''CERT1'' ada_issued
     = Inr (''Ada Lovelace'', ''Computer Science'', ''A'', 1700000000, False)"
proof -
  have "issueCertificate registrar 1700000000 ''CERT1'' ''Ada Lovelace'' ''Computer Science'' ''A''
          (constructor registrar) = Inr (ada_issued, [CertificateIssued ''CERT1'' ''Ada Lovelace''])"
    by (simp add: ledger_defs registrar_def ada_issued_def constructor_def zero_Certificate_def)
  with issue_then_verify [where a = registrar and ts = 1700000000 and certId = "''CERT1''"
      and sName = "''Ada Lovelace''" and crs = "''Computer Science''" and grd = "''A''"
      and s = "constructor registrar" and s' = ada_issued
      and ev = "[CertificateIssued ''CERT1'' ''Ada Lovelace'']"]
  show ?thesis by blast
qed

text \<open>
  C2. In every reachable storage: a record written by \<open>issueCertificate\<close> has
  \<open>isRevoked = false\<close>; a record that is revoked stays revoked through every sequence of
  transactions (nothing sets the flag back); \<open>revokeCertificate\<close> reverts, and the storage
  stays as it was, when the record does not exist or is already revoked; and a successful
  \<open>revokeCertificate\<close> takes the flag from false to true, after which revoking the same
  certId again reverts.
\<close>

theorem revocation_is_one_way:
  assumes "reachable s"
  shows
    "(issueCertificate a ts certId sName crs grd s = Inr (s1, ev1) \<longrightarrow>
        \<not> isRevoked (certificates s1 certId))
     \<and> (isRevoked (certificates s certId) \<longrightarrow> isRevoked (certificates (run txs s) certId))
     \<and> (\<not> exists (certificates s certId) \<or> isRevoked (certificates s certId) \<longrightarrow>
          revokeCertificate a certId s
            = Inl (if \<not> authorizedInstitutions s a then Not_authorized
                   else if \<not> exists (certificates s certId) then Certificate_does_not_exist
                   else Already_revoked)
          \<and> transact (a, ts, RevokeCertificate certId) s = s)
     \<and> (revokeCertificate a certId s = Inr (s2, ev2) \<longrightarrow>
          \<not> isRevoked (certificates s certId) \<and> isRevoked (certificates s2 certId)
          \<and> revokeCertificate a certId s2 = Inl Already_revoked)"
proof (intro conjI)
  show "issueCertificate a ts certId sName crs grd s = Inr (s1, ev1) \<longrightarrow>
          \<not> isRevoked (certificates s1 certId)"
    by (auto simp: ledger_defs split: if_splits)
  show "isRevoked (certificates s certId) \<longrightarrow> isRevoked (certificates (run txs s) certId)"
    using assms run_keeps_revoked by blast
  show "\<not> exists (certificates s certId) \<or> isRevoked (certificates s certId) \<longrightarrow>
          revokeCertificate a certId s
            = Inl (if \<not> authorizedInstitutions s a then Not_authorized
                   else if \<not> exists (certificates s certId) then Certificate_does_not_exist
                   else Already_revoked)
          \<and> transact (a, ts, RevokeCertificate certId) s = s"
    using reachable_revoked_exists [OF assms, of certId]
    by (auto simp: ledger_defs)
  show "revokeCertificate a certId s = Inr (s2, ev2) \<longrightarrow>
          \<not> isRevoked (certificates s certId) \<and> isRevoked (certificates s2 certId)
          \<and> revokeCertificate a certId s2 = Inl Already_revoked"
    by (auto simp: ledger_defs split: if_splits)
qed

theorem revocation_is_one_way_witness:
  "\<not> isRevoked (certificates ada_issued ''CERT1'')
   \<and> isRevoked (certificates ada_revoked ''CERT1'')
   \<and> isRevoked (certificates
        (run [(registrar, 1700000700, AddInstitution outsider),
              (outsider, 1700000800, IssueCertificate ''CERT1'' ''Eve'' ''Law'' ''B''),
              (outsider, 1700000900, RevokeCertificate ''CERT1'')] ada_revoked) ''CERT1'')
   \<and> revokeCertificate registrar ''CERT1'' ada_revoked = Inl Already_revoked
   \<and> transact (registrar, 1700000700, RevokeCertificate ''CERT1'') ada_revoked = ada_revoked
   \<and> revokeCertificate registrar ''CERT2'' ada_issued = Inl Certificate_does_not_exist
   \<and> transact (registrar, 1700000700, RevokeCertificate ''CERT2'') ada_issued = ada_issued"
proof -
  have issue: "issueCertificate registrar 1700000000 ''CERT1'' ''Ada Lovelace'' ''Computer Science'' ''A''
          (constructor registrar) = Inr (ada_issued, [CertificateIssued ''CERT1'' ''Ada Lovelace''])"
    by (simp add: ledger_defs registrar_def ada_issued_def constructor_def zero_Certificate_def ada_revoked_def)
  have revoke: "revokeCertificate registrar ''CERT1'' ada_issued
          = Inr (ada_revoked, [CertificateRevoked ''CERT1''])"
    by (simp add: ledger_defs registrar_def ada_issued_def constructor_def zero_Certificate_def ada_revoked_def)
  have r0: "reachable (constructor registrar)" by (rule reachable.deployed)
  have auth: "authorizedInstitutions ada_revoked registrar" "authorizedInstitutions ada_issued registrar"
    by (simp_all add: ledger_defs registrar_def ada_issued_def constructor_def zero_Certificate_def ada_revoked_def)
  have missing: "\<not> exists (certificates ada_issued ''CERT2'')"
    by (simp add: ledger_defs registrar_def ada_issued_def constructor_def zero_Certificate_def ada_revoked_def)
  have present: "exists (certificates ada_revoked ''CERT1'')"
    by (simp add: ledger_defs registrar_def ada_issued_def constructor_def zero_Certificate_def ada_revoked_def)
  note at_start = revocation_is_one_way [OF r0, where a = registrar and ts = 1700000000
      and certId = "''CERT1''" and sName = "''Ada Lovelace''" and crs = "''Computer Science''"
      and grd = "''A''" and ?s1.0 = ada_issued
      and ?ev1.0 = "[CertificateIssued ''CERT1'' ''Ada Lovelace'']"]
  note at_issued = revocation_is_one_way [OF reachable_ada_issued, where a = registrar
      and certId = "''CERT1''" and ?s2.0 = ada_revoked
      and ?ev2.0 = "[CertificateRevoked ''CERT1'']"]
  note at_missing = revocation_is_one_way [OF reachable_ada_issued, where a = registrar
      and certId = "''CERT2''" and ts = 1700000700]
  note at_revoked = revocation_is_one_way [OF reachable_ada_revoked, where a = registrar
      and certId = "''CERT1''" and ts = 1700000700 and txs =
      "[(registrar, 1700000700, AddInstitution outsider),
        (outsider, 1700000800, IssueCertificate ''CERT1'' ''Eve'' ''Law'' ''B''),
        (outsider, 1700000900, RevokeCertificate ''CERT1'')]"]
  have 1: "\<not> isRevoked (certificates ada_issued ''CERT1'')"
    using at_start issue by blast
  have 2: "isRevoked (certificates ada_revoked ''CERT1'')"
    using at_issued revoke by blast
  have 3: "isRevoked (certificates
        (run [(registrar, 1700000700, AddInstitution outsider),
              (outsider, 1700000800, IssueCertificate ''CERT1'' ''Eve'' ''Law'' ''B''),
              (outsider, 1700000900, RevokeCertificate ''CERT1'')] ada_revoked) ''CERT1'')"
    using at_revoked 2 by blast
  have 4: "revokeCertificate registrar ''CERT1'' ada_revoked = Inl Already_revoked
   \<and> transact (registrar, 1700000700, RevokeCertificate ''CERT1'') ada_revoked = ada_revoked"
    using at_revoked 2 present auth(1) by auto
  have 5: "revokeCertificate registrar ''CERT2'' ada_issued = Inl Certificate_does_not_exist
   \<and> transact (registrar, 1700000700, RevokeCertificate ''CERT2'') ada_issued = ada_issued"
    using at_missing missing auth(2) by auto
  show ?thesis
    using 1 2 3 4 5 by blast
qed

text \<open>
  C3. Once an issuer has issued a certId, every later \<open>issueCertificate\<close> of that issuer
  with the same certId, after whatever transactions in between, reverts with the
  conflict "Already exists" and leaves the storage (so the existing record) as it was.
  The same holds for every authorized sender on a certId that exists; a sender that is
  not authorized is stopped by \<open>onlyAuthorized\<close> before the check, also without a change.
  Two issuances by authorized senders on the same fresh certId, mined one after the other
  in either order (the senders and arguments are arbitrary), give one success and one
  "Already exists", and the record kept is the one written by the first.
\<close>

theorem duplicate_issue_conflicts:
  "(issueCertificate a ts certId sName crs grd s = Inr (s1, ev) \<longrightarrow>
      issueCertificate a ts' certId sName' crs' grd' (run txs s1) = Inl Already_exists
      \<and> transact (a, ts', IssueCertificate certId sName' crs' grd') (run txs s1) = run txs s1)
   \<and> (exists (certificates s certId) \<and> authorizedInstitutions s b \<longrightarrow>
        issueCertificate b ts' certId sName' crs' grd' s = Inl Already_exists)
   \<and> (exists (certificates s certId) \<longrightarrow>
        (\<exists>e. issueCertificate b ts' certId sName' crs' grd' s = Inl e)
        \<and> transact (b, ts', IssueCertificate certId sName' crs' grd') s = s)
   \<and> (authorizedInstitutions s a \<and> authorizedInstitutions s b
        \<and> \<not> exists (certificates s certId) \<longrightarrow>
        (\<exists>s2 ev2. issueCertificate a ts certId sName crs grd s = Inr (s2, ev2)
           \<and> issueCertificate b ts' certId sName' crs' grd' s2 = Inl Already_exists
           \<and> run [(a, ts, IssueCertificate certId sName crs grd),
                   (b, ts', IssueCertificate certId sName' crs' grd')] s = s2
           \<and> verifyCertificate certId s2 = Inr (sName, crs, grd, ts, False)))"
proof (intro conjI impI)
  assume first: "issueCertificate a ts certId sName crs grd s = Inr (s1, ev)"
  then have "authorizedInstitutions s1 a" "exists (certificates s1 certId)"
    by (auto simp: ledger_defs split: if_splits)
  then have "authorizedInstitutions (run txs s1) a" "exists (certificates (run txs s1) certId)"
    by (simp_all add: run_keeps_authorized run_keeps_record)
  then show "issueCertificate a ts' certId sName' crs' grd' (run txs s1) = Inl Already_exists"
    and "transact (a, ts', IssueCertificate certId sName' crs' grd') (run txs s1) = run txs s1"
    by (simp_all add: ledger_defs)
next
  assume "exists (certificates s certId) \<and> authorizedInstitutions s b"
  then show "issueCertificate b ts' certId sName' crs' grd' s = Inl Already_exists"
    by (simp add: ledger_defs)
next
  assume "exists (certificates s certId)"
  then show "\<exists>e. issueCertificate b ts' certId sName' crs' grd' s = Inl e"
    and "transact (b, ts', IssueCertificate certId sName' crs' grd') s = s"
    by (simp_all add: ledger_defs)
next
  assume "authorizedInstitutions s a \<and> authorizedInstitutions s b
        \<and> \<not> exists (certificates s certId)"
  then show "\<exists>s2 ev2. issueCertificate a ts certId sName crs grd s = Inr (s2, ev2)
           \<and> issueCertificate b ts' certId sName' crs' grd' s2 = Inl Already_exists
           \<and> run [(a, ts, IssueCertificate certId sName crs grd),
                   (b, ts', IssueCertificate certId sName' crs' grd')] s = s2
           \<and> verifyCertificate certId s2 = Inr (sName, crs, grd, ts, False)"
    by (simp add: ledger_defs)
qed

theorem duplicate_issue_conflicts_witness:
  "issueCertificate registrar 1700000001 ''CERT1'' ''Eve'' ''Law'' ''B''
       (run [(registrar, 1700000000, RevokeCertificate ''CERT1'')] ada_issued)
     = Inl Already_exists
   \<and> issueCertificate registrar 1700000001 ''CERT1'' ''Eve'' ''Law'' ''B'' ada_issued
     = Inl Already_exists
   \<and> transact (registrar, 1700000001, IssueCertificate ''CERT1'' ''Eve'' ''Law'' ''B'') ada_issued
       = ada_issued
   \<and> (\<exists>s2 ev2.
        issueCertificate registrar 1700000000 ''CERT9'' ''Ada Lovelace'' ''Computer Science'' ''A''
          ada_issued = Inr (s2, ev2)
        \<and> issueCertificate registrar 1700000001 ''CERT9'' ''Eve'' ''Law'' ''B'' s2
            = Inl Already_exists
        \<and> run [(registrar, 1700000000,
                  IssueCertificate ''CERT9'' ''Ada Lovelace'' ''Computer Science'' ''A''),
                 (registrar, 1700000001, IssueCertificate ''CERT9'' ''Eve'' ''Law'' ''B'')]
              ada_issued = s2
        \<and> verifyCertificate ''CERT9'' s2
            = Inr (''Ada Lovelace'', ''Computer Science'', ''A'', 1700000000, False))"
proof -
  have first: "issueCertificate registrar 1700000000 ''CERT1'' ''Ada Lovelace''
          ''Computer Science'' ''A'' (constructor registrar)
        = Inr (ada_issued, [CertificateIssued ''CERT1'' ''Ada Lovelace''])"
    by (simp add: ledger_defs registrar_def ada_issued_def constructor_def zero_Certificate_def)
  have present: "exists (certificates ada_issued ''CERT1'')"
    and fresh: "\<not> exists (certificates ada_issued ''CERT9'')"
    and auth: "authorizedInstitutions ada_issued registrar"
    by (simp_all add: ledger_defs registrar_def ada_issued_def constructor_def zero_Certificate_def)
  note again = duplicate_issue_conflicts [where s = "constructor registrar"
      and certId = "''CERT1''" and a = registrar and ts = 1700000000
      and sName = "''Ada Lovelace''" and crs = "''Computer Science''" and grd = "''A''"
      and ?s1.0 = ada_issued and ev = "[CertificateIssued ''CERT1'' ''Ada Lovelace'']"
      and ts' = 1700000001 and sName' = "''Eve''" and crs' = "''Law''" and grd' = "''B''"
      and txs = "[(registrar, 1700000000, RevokeCertificate ''CERT1'')]"]
  note dup = duplicate_issue_conflicts [where s = ada_issued and certId = "''CERT1''"
      and b = registrar and ts' = 1700000001 and sName' = "''Eve''" and crs' = "''Law''"
      and grd' = "''B''"]
  note race = duplicate_issue_conflicts [where s = ada_issued and certId = "''CERT9''"
      and a = registrar and ts = 1700000000 and sName = "''Ada Lovelace''"
      and crs = "''Computer Science''" and grd = "''A''" and b = registrar
      and ts' = 1700000001 and sName' = "''Eve''" and crs' = "''Law''" and grd' = "''B''"]
  have 1: "issueCertificate registrar 1700000001 ''CERT1'' ''Eve'' ''Law'' ''B''
       (run [(registrar, 1700000000, RevokeCertificate ''CERT1'')] ada_issued)
     = Inl Already_exists"
    using again first by blast
  have 2: "issueCertificate registrar 1700000001 ''CERT1'' ''Eve'' ''Law'' ''B'' ada_issued
             = Inl Already_exists
           \<and> transact (registrar, 1700000001, IssueCertificate ''CERT1'' ''Eve'' ''Law'' ''B'')
                 ada_issued = ada_issued"
    using dup present auth by blast
  show ?thesis
    using 1 2 race fresh auth by blast
qed

text \<open>
  C7. A successful \<open>revokeCertificate\<close> was called on an existing, non-revoked record and
  changes nothing but that record's \<open>isRevoked\<close> flag: the new storage is the old one with
  the flag of that certId set, and \<open>verifyCertificate\<close> returns the same student name,
  course, grade and issue date as before, now with \<open>isRevoked = true\<close>.
\<close>

theorem revoke_changes_only_flag:
  assumes "revokeCertificate a certId s = Inr (s', ev)"
  shows "\<exists>sName crs grd date.
           verifyCertificate certId s = Inr (sName, crs, grd, date, False)
           \<and> verifyCertificate certId s' = Inr (sName, crs, grd, date, True)
           \<and> s' = s\<lparr>certificates := (certificates s)(certId :=
                     (certificates s certId)\<lparr>isRevoked := True\<rparr>)\<rparr>
           \<and> (\<forall>other. other \<noteq> certId \<longrightarrow> certificates s' other = certificates s other)
           \<and> authorizedInstitutions s' = authorizedInstitutions s \<and> admin s' = admin s"
  using assms by (auto simp: ledger_defs split: if_splits)

theorem revoke_changes_only_flag_witness:
  "verifyCertificate ''CERT1'' ada_issued
     = Inr (''Ada Lovelace'', ''Computer Science'', ''A'', 1700000000, False)
   \<and> verifyCertificate ''CERT1'' ada_revoked
     = Inr (''Ada Lovelace'', ''Computer Science'', ''A'', 1700000000, True)"
proof -
  have revoke: "revokeCertificate registrar ''CERT1'' ada_issued
          = Inr (ada_revoked, [CertificateRevoked ''CERT1''])"
    by (simp add: ledger_defs registrar_def ada_issued_def constructor_def zero_Certificate_def ada_revoked_def)
  have before: "verifyCertificate ''CERT1'' ada_issued
     = Inr (''Ada Lovelace'', ''Computer Science'', ''A'', 1700000000, False)"
    by (simp add: ledger_defs registrar_def ada_issued_def constructor_def zero_Certificate_def ada_revoked_def)
  from revoke_changes_only_flag [OF revoke] before show ?thesis by auto
qed

section \<open>Claims about the backend\<close>

text \<open>
  C4. The verify route answers "not found" (\<open>exists: false\<close>) exactly when the provider
  is reached and the contract has no record of the certId; the route tells this case by
  the words "Certificate does not exist" in the caught error's message. So, as long as
  the contract's revert reaches the handler with its reason in the message and the
  messages of the other failures (provider, table, QR code) do not contain these words:
  a certId that was never issued gives "not found"; an unreachable or timed-out provider
  gives status 500 with the provider's message, never "not found"; and the route changes
  nothing.
\<close>

theorem not_found_only_when_ledger_says_so:
  assumes revert_reported: "js_includes (call_exception env Certificate_does_not_exist) not_exist"
      and net: "\<forall>m. provider_fault env = Some m \<longrightarrow> \<not> js_includes m not_exist"
      and db: "\<forall>m. db_fault env = Some m \<longrightarrow> \<not> js_includes m not_exist"
      and qr: "\<forall>e. QRCode_toDataURL env (verifyUrl env certId) = Inl e
                  \<longrightarrow> \<not> js_includes (message e) not_exist"
  shows "(fst (verify_route env certId w) = not_found
            \<longleftrightarrow> provider_fault env = None \<and> \<not> exists (certificates (ledger w) certId))
         \<and> (\<forall>m. provider_fault env = Some m \<longrightarrow> verify_route env certId w = (error_json 500 m, w))
         \<and> snd (verify_route env certId w) = w"
proof (cases "provider_fault env")
  case (Some m)
  have "\<not> js_includes m not_exist" using net Some by simp
  then have "verify_route env certId w = (error_json 500 m, w)"
    using verify_route_caught [OF contract_verify_unreachable [OF Some]] by simp
  then show ?thesis using Some by (simp add: error_json_def not_found_def)
next
  case None
  show ?thesis
  proof (cases "exists (certificates (ledger w) certId)")
    case False
    have "verify_route env certId w = (not_found, w)"
      using verify_route_caught [OF contract_verify_reverted [OF None False]] revert_reported
      by simp
    then show ?thesis using None False by simp
  next
    case True
    have "db_fault env = None \<or> (\<exists>m. db_fault env = Some m \<and> \<not> js_includes m not_exist)"
      using db by (cases "db_fault env") auto
    from verify_route_found [OF contract_verify_returned [OF None True] this qr]
    show ?thesis using None True by simp
  qed
qed

theorem not_found_only_when_ledger_says_so_witness:
  "fst (verify_route example_env ''CERT-does-not-exist'' issued_server) = not_found
   \<and> verify_route unreachable_env ''CERT-does-not-exist'' issued_server
       = (error_json 500 ''connect ECONNREFUSED 127.0.0.1:8545'', issued_server)
   \<and> fst (verify_route example_env ''CERT1'' issued_server) \<noteq> not_found"
proof -
  have reported: "js_includes (call_exception example_env Certificate_does_not_exist) not_exist"
    "js_includes (call_exception unreachable_env Certificate_does_not_exist) not_exist"
    by (simp_all add: example_env_def unreachable_env_def issued_server_def ada_row_def not_exist_def)
  have quiet: "\<not> js_includes ''connect ECONNREFUSED 127.0.0.1:8545'' not_exist"
    by (simp add: not_exist_def)
  have up: "provider_fault example_env = None" "db_fault example_env = None"
    "db_fault unreachable_env = None"
    and down: "provider_fault unreachable_env = Some ''connect ECONNREFUSED 127.0.0.1:8545''"
    and qr: "QRCode_toDataURL example_env url = Inr (''data:image/png;base64,'' @ url)"
      "QRCode_toDataURL unreachable_env url = Inr (''data:image/png;base64,'' @ url)" for url
    by (simp_all add: example_env_def unreachable_env_def issued_server_def ada_row_def)
  have missing: "\<not> exists (certificates (ledger issued_server) ''CERT-does-not-exist'')"
    and present: "exists (certificates (ledger issued_server) ''CERT1'')"
    by (simp_all add: example_env_def unreachable_env_def issued_server_def ada_row_def ledger_defs registrar_def ada_issued_def constructor_def zero_Certificate_def)
  have 1: "fst (verify_route example_env ''CERT-does-not-exist'' issued_server) = not_found"
    using not_found_only_when_ledger_says_so [where env = example_env
        and certId = "''CERT-does-not-exist''" and w = issued_server]
      reported up qr missing by simp
  have 2: "verify_route unreachable_env ''CERT-does-not-exist'' issued_server
       = (error_json 500 ''connect ECONNREFUSED 127.0.0.1:8545'', issued_server)"
    using not_found_only_when_ledger_says_so [where env = unreachable_env
        and certId = "''CERT-does-not-exist''" and w = issued_server]
      reported down up qr quiet by simp
  have 3: "fst (verify_route example_env ''CERT1'' issued_server) \<noteq> not_found"
    using not_found_only_when_ledger_says_so [where env = example_env
        and certId = "''CERT1''" and w = issued_server]
      reported up qr present by simp
  from 1 2 3 show ?thesis by blast
qed

text \<open>
  C5. For a request that multer and the validation let through: when the ledger write
  fails (the certId is taken, the provider is not reached when the transaction is sent
  or while it is awaited, or the contract rejects the wallet), the route answers through
  the error handler, the table is as before (no row inserted), no file of a name derived
  from the certId is added, and the temporary file of the upload is removed. The trace
  shows no rename and no insert.
\<close>

theorem failed_ledger_write_leaves_no_record:
  assumes "accepted part" and "validationResult (sanitized body) = []"
      and "ledger_write_fails env (new_certId env) w"
  shows "\<exists>m w'. issue_route env body part w = (errorHandler env (Error m), w')
           \<and> rows w' = rows w \<and> last_id w' = last_id w
           \<and> uploads w' = (case part of None \<Rightarrow> uploads w
                            | Some p \<Rightarrow> (uploads w)(temp_name env p := None))
           \<and> (\<forall>ext. uploads w' (new_certId env @ ext) = uploads w (new_certId env @ ext))
           \<and> trace w' = trace w @
                (case part of None \<Rightarrow> [LedgerSubmit (new_certId env)]
                 | Some p \<Rightarrow> [FileWrite (temp_name env p), LedgerSubmit (new_certId env),
                              FileUnlink (temp_name env p)])"
  using assms by (rule issue_route_ledger_failure)

theorem failed_ledger_write_leaves_no_record_witness:
  "\<exists>w'. issue_route unreachable_env ada_body (Some scan) fresh_server
           = (Json 500 (JObj [(''error'', JStr ''Internal server error'')]), w')
      \<and> rows w' = Map.empty \<and> uploads w' = Map.empty
      \<and> trace w' = [FileWrite ''temp_1700000000099.png'', LedgerSubmit ''CERT1700000000123'',
                     FileUnlink ''temp_1700000000099.png'']"
proof -
  have a: "accepted (Some scan)"
    by (simp add: accepted_def scan_def allowedTypes_def fileSize_def)
  have v: "validationResult (sanitized ada_body) = []"
    by (simp add: validationResult_def sanitized_def chain_def trim_def is_space_def ada_body_def)
  have f: "ledger_write_fails unreachable_env (new_certId unreachable_env) fresh_server"
    by (simp add: ledger_write_fails_def example_env_def unreachable_env_def fresh_server_def scan_def ada_body_def)
  have names: "temp_name unreachable_env scan = ''temp_1700000000099.png''"
    "new_certId unreachable_env = ''CERT1700000000123''"
    by (simp_all add: temp_name_def new_certId_def example_env_def unreachable_env_def fresh_server_def scan_def ada_body_def decimal.simps)
  have handler: "errorHandler unreachable_env (Error m)
      = Json 500 (JObj [(''error'', JStr ''Internal server error'')])" for m
    by (simp add: errorHandler_def example_env_def unreachable_env_def fresh_server_def scan_def ada_body_def)
  have stores: "rows fresh_server = Map.empty" "uploads fresh_server = Map.empty"
    "trace fresh_server = []"
    by (simp_all add: fresh_server_def)
  from failed_ledger_write_leaves_no_record [OF a v f]
  show ?thesis
    by (auto simp: names handler stores)
qed

text \<open>
  C6. Whatever the request and the faults, the effects the issue route adds to the trace
  are ordered: a rename of the document to its certId-derived name and an insert of the
  row come only after \<open>tx.wait()\<close> has confirmed the ledger write of that certId. And when
  such a write was made, or the table changed at all, the contract holds the certificate
  with the trimmed fields of the request: the mirror is never written ahead of the
  ledger.
\<close>

theorem mirror_written_after_ledger_confirmation:
  "\<exists>new. trace (snd (issue_route env body part w)) = trace w @ new
      \<and> mirror_after_ledger (new_certId env) False new
      \<and> ((\<exists>e \<in> set new. is_mirror_write e) \<or> rows (snd (issue_route env body part w)) \<noteq> rows w
           \<longrightarrow> verifyCertificate (new_certId env) (ledger (snd (issue_route env body part w)))
                 = Inr (trim (toString (body_studentName body)), trim (toString (body_course body)),
                        trim (toString (body_grade body)), block_timestamp env, False))"
proof (cases "accepted part")
  case False
  from issue_route_rejected [OF this, of env body w]
  obtain e where "issue_route env body part w = (errorHandler env e, w)" by blast
  then show ?thesis by simp
next
  case True
  let ?up = "case part of None \<Rightarrow> [] | Some p \<Rightarrow> [FileWrite (temp_name env p)]"
  show ?thesis
  proof (cases "validationResult (sanitized body) = []")
    case False
    have "issue_route env body part w
      = (validation_failed (validationResult (sanitized body)), after_upload env part w)"
      using True False by (rule issue_route_invalid)
    then show ?thesis
      by (cases part) (simp_all add: after_upload_stores is_mirror_write_def)
  next
    case valid: True
    show ?thesis
    proof (cases "ledger_write_fails env (new_certId env) w")
      case fails: True
      from issue_route_ledger_failure [OF True valid fails]
      obtain m w' where "issue_route env body part w = (errorHandler env (Error m), w')"
        "rows w' = rows w"
        "trace w' = trace w @
                (case part of None \<Rightarrow> [LedgerSubmit (new_certId env)]
                 | Some p \<Rightarrow> [FileWrite (temp_name env p), LedgerSubmit (new_certId env),
                              FileUnlink (temp_name env p)])"
        by blast
      then show ?thesis
        by (cases part) (simp_all add: is_mirror_write_def)
    next
      case ok: False
      let ?w1 = "after_upload env part w"
      have ok1: "\<not> ledger_write_fails env (new_certId env) ?w1"
        using ok by (simp add: ledger_write_fails_after_upload)
      from issue_handler_success [OF ok1, of "sanitized body" "stored env part"]
      obtain es where es: "trace (snd (issue_handler env (sanitized body) (stored env part) ?w1))
                 = trace ?w1 @ [LedgerSubmit (new_certId env), LedgerConfirmed (new_certId env)] @ es"
        and led: "ledger (snd (issue_handler env (sanitized body) (stored env part) ?w1))
                 = issued_ledger env (new_certId env) (sanitized body) (ledger ?w1)"
        by blast
      have route: "issue_route env body part w
          = issue_handler env (sanitized body) (stored env part) ?w1"
        using True valid by (rule issue_route_valid)
      have tr: "trace (snd (issue_route env body part w))
          = trace w @ (?up @ [LedgerSubmit (new_certId env), LedgerConfirmed (new_certId env)] @ es)"
        using es route by (simp add: after_upload_stores)
      have ordered: "mirror_after_ledger (new_certId env) False
          (?up @ [LedgerSubmit (new_certId env), LedgerConfirmed (new_certId env)] @ es)"
        by (cases part) (simp_all add: mirror_after_ledger_confirmed)
      have "verifyCertificate (new_certId env) (ledger (snd (issue_route env body part w)))
                 = Inr (trim (toString (body_studentName body)), trim (toString (body_course body)),
                        trim (toString (body_grade body)), block_timestamp env, False)"
        using led route
        by (simp add: issued_ledger_def sanitized_def verifyCertificate_def)
      then show ?thesis using tr ordered by blast
    qed
  qed
qed

theorem mirror_written_after_ledger_confirmation_witness:
  "rows (snd (issue_route example_env ada_body (Some scan) fresh_server)) ''CERT1700000000123''
     \<noteq> None
   \<and> verifyCertificate ''CERT1700000000123''
        (ledger (snd (issue_route example_env ada_body (Some scan) fresh_server)))
       = Inr (''Ada Lovelace'', ''Computer Science'', ''A'', 1700000000, False)"
proof -
  have names: "temp_name example_env scan = ''temp_1700000000099.png''"
    "new_certId example_env = ''CERT1700000000123''"
    by (simp_all add: temp_name_def new_certId_def example_env_def fresh_server_def scan_def ada_body_def decimal.simps)
  have a: "accepted (Some scan)"
    by (simp add: accepted_def scan_def allowedTypes_def fileSize_def)
  have body: "sanitized ada_body = (''Ada Lovelace'', ''Computer Science'', ''A'')"
    by (simp add: sanitized_def trim_def is_space_def ada_body_def)
  have v: "validationResult (sanitized ada_body) = []"
    unfolding body by (simp add: validationResult_def chain_def)
  have ok: "\<not> ledger_write_fails example_env ''CERT1700000000123''
              (after_upload example_env (Some scan) fresh_server)"
    by (simp add: ledger_write_fails_def after_upload_def example_env_def fresh_server_def scan_def ada_body_def constructor_def
          registrar_def zero_Certificate_def)
  have ext: "path_extname example_env (originalname scan) = ''.png''"
    by (simp add: example_env_def fresh_server_def scan_def ada_body_def)
  have env: "db_fault example_env = None"
    "QRCode_toDataURL example_env url = Inr (''data:image/png;base64,'' @ url)" for url
    by (simp_all add: example_env_def)
  have stores: "rows fresh_server = Map.empty" "uploads fresh_server = Map.empty"
    by (simp_all add: fresh_server_def)
  have inserted: "rows (snd (issue_route example_env ada_body (Some scan) fresh_server))
        ''CERT1700000000123'' \<noteq> None"
    unfolding issue_route_valid [OF a v] body issue_handler_def names Let_def prod.case
      answer_def try_catch_def ledger_write_success [OF ok]
    by (simp add: mirror_certificate_def persist_document_def stored_def after_upload_def
          names ext env stores bind_io_def return_io_def record_effect_def fs_renameSync_def
          generateQRCode_def lift_def db_insert_def Let_def throw_io_def)
  have changed: "rows (snd (issue_route example_env ada_body (Some scan) fresh_server))
        \<noteq> rows fresh_server"
    using inserted by (auto simp: fresh_server_def)
  have fields: "trim (toString (body_studentName ada_body)) = ''Ada Lovelace''"
    "trim (toString (body_course ada_body)) = ''Computer Science''"
    "trim (toString (body_grade ada_body)) = ''A''"
    "block_timestamp example_env = 1700000000"
    using body by (simp_all add: sanitized_def example_env_def)
  from mirror_written_after_ledger_confirmation [where env = example_env and body = ada_body
      and part = "Some scan" and w = fresh_server]
  have "verifyCertificate ''CERT1700000000123''
        (ledger (snd (issue_route example_env ada_body (Some scan) fresh_server)))
       = Inr (''Ada Lovelace'', ''Computer Science'', ''A'', 1700000000, False)"
    unfolding names fields using changed by blast
  with inserted show ?thesis by blast
qed

text \<open>
  C8. A request whose student name is one character after trimming, sent with a PNG
  document: the route answers 400 "Validation failed" and neither the contract's storage
  nor the table changes, but multer had written the upload under its temporary name
  before the validation ran, and nothing on this path removes it: the file stays in
  \<open>uploads\<close>. (The handler's own \<open>catch\<close> block does remove it on its path.)
\<close>

theorem validation_failure_keeps_upload:
  "issue_route example_env short_body (Some scan) fresh_server
     = (validation_failed [(''studentName'', ''Student name must be 2-100 characters'')],
        fresh_server\<lparr>uploads := [''temp_1700000000099.png'' \<mapsto> ''PNG bytes''],
                     trace := [FileWrite ''temp_1700000000099.png'']\<rparr>)"
proof -
  have names: "temp_name example_env scan = ''temp_1700000000099.png''"
    by (simp add: temp_name_def example_env_def fresh_server_def scan_def ada_body_def short_body_def decimal.simps)
  have a: "accepted (Some scan)"
    by (simp add: accepted_def scan_def allowedTypes_def fileSize_def)
  have body: "sanitized short_body = (''A'', ''Computer Science'', ''A'')"
    by (simp add: sanitized_def trim_def is_space_def ada_body_def short_body_def)
  have v: "validationResult (sanitized short_body)
      = [(''studentName'', ''Student name must be 2-100 characters'')]"
    unfolding body by (simp add: validationResult_def chain_def)
  have "validationResult (sanitized short_body) \<noteq> []"
    unfolding v by simp
  from issue_route_invalid [OF a this, of example_env fresh_server]
  have "issue_route example_env short_body (Some scan) fresh_server
     = (validation_failed [(''studentName'', ''Student name must be 2-100 characters'')],
        after_upload example_env (Some scan) fresh_server)"
    unfolding v .
  moreover have "after_upload example_env (Some scan) fresh_server
     = fresh_server\<lparr>uploads := [''temp_1700000000099.png'' \<mapsto> ''PNG bytes''],
                     trace := [FileWrite ''temp_1700000000099.png'']\<rparr>"
    by (simp add: after_upload_def names) (simp add: scan_def fresh_server_def)
  ultimately show ?thesis by simp
qed

text \<open>
  C9. Deleting the local record of a certId (authenticated, table working) answers with
  success, removes the row of that certId and no other, and removes its document file
  from \<open>uploads\<close>. Whatever the request, the delete route leaves the contract's storage as
  it was, so \<open>verifyCertificate\<close>, called directly or through the provider, returns the
  same as before.
\<close>

theorem local_delete_leaves_ledger:
  "(rows w certId = Some r \<and> db_fault env = None \<and> authenticated env authHeader \<longrightarrow>
      (\<exists>w'. delete_route env authHeader certId w = (deleted_json, w')
          \<and> rows w' certId = None
          \<and> (truthy (row_documentPath r) \<longrightarrow> uploads w' (toString (row_documentPath r)) = None)
          \<and> (\<forall>other. other \<noteq> certId \<longrightarrow> rows w' other = rows w other)))
   \<and> ledger (snd (delete_route env authHeader certId w)) = ledger w
   \<and> verifyCertificate certId (ledger (snd (delete_route env authHeader certId w)))
       = verifyCertificate certId (ledger w)
   \<and> fst (contract_verifyCertificate env' certId (snd (delete_route env authHeader certId w)))
       = fst (contract_verifyCertificate env' certId w)"
proof -
  have led: "ledger (snd (delete_route env authHeader certId w)) = ledger w"
    using local_stepD [OF local_delete_route] by blast
  have del: "\<exists>w'. delete_route env authHeader certId w = (deleted_json, w')
          \<and> rows w' certId = None
          \<and> (truthy (row_documentPath r) \<longrightarrow> uploads w' (toString (row_documentPath r)) = None)
          \<and> (\<forall>other. other \<noteq> certId \<longrightarrow> rows w' other = rows w other)"
    if a: "rows w certId = Some r" "db_fault env = None" "authenticated env authHeader"
  proof -
    have "delete_route env authHeader certId w = delete_handler env certId w"
      using a(3) by (auto simp: delete_route_def authenticateToken_def authenticated_def
          split: sum.splits)
    with delete_handler_deletes [OF a(1,2)] show ?thesis by auto
  qed
  show ?thesis using led del contract_verify_same_ledger [OF led] by simp
qed

theorem local_delete_leaves_ledger_witness:
  "\<exists>w'. delete_route example_env (Some ''Bearer s3cr3t'') ''CERT1'' issued_server
           = (deleted_json, w')
      \<and> rows w' ''CERT1'' = None \<and> uploads w' ''CERT1.pdf'' = None
      \<and> verifyCertificate ''CERT1'' (ledger w')
          = Inr (''Ada Lovelace'', ''Computer Science'', ''A'', 1700000000, False)"
proof -
  have row: "rows issued_server ''CERT1'' = Some ada_row"
    and db: "db_fault example_env = None"
    and doc: "truthy (row_documentPath ada_row)" "toString (row_documentPath ada_row) = ''CERT1.pdf''"
    by (simp_all add: example_env_def issued_server_def ada_row_def)
  have auth: "authenticated example_env (Some ''Bearer s3cr3t'')"
    by (simp add: authenticated_def bearer_def example_env_def)
  have before: "verifyCertificate ''CERT1'' (ledger issued_server)
          = Inr (''Ada Lovelace'', ''Computer Science'', ''A'', 1700000000, False)"
    by (simp add: example_env_def issued_server_def ada_row_def ledger_defs registrar_def ada_issued_def constructor_def zero_Certificate_def)
  note at_ada = local_delete_leaves_ledger [where w = issued_server and certId = "''CERT1''"
      and r = ada_row and env = example_env and authHeader = "Some ''Bearer s3cr3t''"
      and env' = example_env]
  from at_ada row db auth obtain w'
    where deleted: "delete_route example_env (Some ''Bearer s3cr3t'') ''CERT1'' issued_server
                      = (deleted_json, w')"
      and gone: "rows w' ''CERT1'' = None"
         "truthy (row_documentPath ada_row) \<longrightarrow> uploads w' (toString (row_documentPath ada_row)) = None"
    by blast
  from at_ada have "verifyCertificate ''CERT1''
       (ledger (snd (delete_route example_env (Some ''Bearer s3cr3t'') ''CERT1'' issued_server)))
      = verifyCertificate ''CERT1'' (ledger issued_server)"
    by blast
  then have "verifyCertificate ''CERT1'' (ledger w')
      = Inr (''Ada Lovelace'', ''Computer Science'', ''A'', 1700000000, False)"
    using deleted before by simp
  moreover have "uploads w' ''CERT1.pdf'' = None"
    using gone(2) doc by simp
  ultimately show ?thesis using deleted gone(1) by blast
qed

text \<open>
  C10. When the provider is reached and the contract's record of the certId is revoked,
  the certificate-PDF route and the stamped-document route both answer 400 "Certificate
  has been revoked" and change nothing. Either route sends an artifact (the PDF, the
  stamped PDF or the stored file) only when the contract returned the record of an
  existing certificate that is not revoked.
\<close>

theorem revoked_certificate_gives_no_artifact:
  "(provider_fault env = None \<and> exists (certificates (ledger w) certId)
      \<and> isRevoked (certificates (ledger w) certId) \<longrightarrow>
        pdf_route env certId w = (revoked_error, w)
        \<and> download_route env certId w = (revoked_error, w))
   \<and> (is_artifact (fst (pdf_route env certId w)) \<or> is_artifact (fst (download_route env certId w))
        \<longrightarrow> provider_fault env = None \<and> exists (certificates (ledger w) certId)
            \<and> \<not> isRevoked (certificates (ledger w) certId))"
proof (cases "provider_fault env")
  case (Some m)
  from pdf_route_caught [OF contract_verify_unreachable [OF Some, of certId w]]
       download_route_caught [OF contract_verify_unreachable [OF Some, of certId w]]
  show ?thesis using Some by (auto simp: error_json_no_artifact)
next
  case None
  show ?thesis
  proof (cases "exists (certificates (ledger w) certId)")
    case False
    from pdf_route_caught [OF contract_verify_reverted [OF None False]]
         download_route_caught [OF contract_verify_reverted [OF None False]]
    show ?thesis using False by (auto simp: error_json_no_artifact)
  next
    case True
    show ?thesis
    proof (cases "isRevoked (certificates (ledger w) certId)")
      case False
      then show ?thesis using None True by simp
    next
      case revoked: True
      have v: "contract_verifyCertificate env certId w
         = (Inr (studentName (certificates (ledger w) certId), course (certificates (ledger w) certId),
             grade (certificates (ledger w) certId), issueDate (certificates (ledger w) certId),
             True), w)"
        using contract_verify_returned [OF None True] revoked by simp
      have "pdf_route env certId w = (revoked_error, w)"
           "download_route env certId w = (revoked_error, w)"
        using v by (rule pdf_route_revoked, rule download_route_revoked)
      then show ?thesis using revoked
        by (simp add: revoked_error_def error_json_no_artifact)
    qed
  qed
qed

theorem revoked_certificate_gives_no_artifact_witness:
  "pdf_route example_env ''CERT1'' revoked_server
     = (Json 400 (JObj [(''error'', JStr ''Certificate has been revoked'')]), revoked_server)
   \<and> download_route example_env ''CERT1'' revoked_server
     = (Json 400 (JObj [(''error'', JStr ''Certificate has been revoked'')]), revoked_server)
   \<and> is_artifact (fst (pdf_route example_env ''CERT1'' issued_server))
   \<and> \<not> isRevoked (certificates (ledger issued_server) ''CERT1'')"
proof -
  have up: "provider_fault example_env = None"
    by (simp add: example_env_def)
  have revoked: "exists (certificates (ledger revoked_server) ''CERT1'')"
    "isRevoked (certificates (ledger revoked_server) ''CERT1'')"
    by (simp_all add: example_env_def issued_server_def revoked_server_def ada_row_def ledger_defs registrar_def ada_issued_def constructor_def zero_Certificate_def ada_revoked_def)
  have valid: "exists (certificates (ledger issued_server) ''CERT1'')"
    "\<not> isRevoked (certificates (ledger issued_server) ''CERT1'')"
    by (simp_all add: example_env_def issued_server_def revoked_server_def ada_row_def ledger_defs registrar_def ada_issued_def constructor_def zero_Certificate_def ada_revoked_def)
  have sent: "is_artifact (fst (pdf_route example_env ''CERT1'' issued_server))"
    unfolding pdf_route_def answer_def try_catch_def bind_io_def
      contract_verify_returned [OF up valid(1)]
    by (simp add: valid return_io_def db_get_def generateQRCode_def lift_def is_artifact_def
          example_env_def)
  from revoked_certificate_gives_no_artifact [where env = example_env and w = revoked_server
      and certId = "''CERT1''"]
    revoked_certificate_gives_no_artifact [where env = example_env and w = issued_server
      and certId = "''CERT1''"]
  show ?thesis
    using up revoked sent by (simp add: revoked_error_def error_json_def)
qed

end
